theory Spec2Isabelle
  imports Complex_Main
begin

section \<open>Scene document (core/scene/types.ts)\<close>

text \<open>
  A JavaScript \<^verbatim>\<open>number\<close> that carries a coordinate, an angle or an opacity is
  modelled as a \<^typ>\<open>real\<close>; a millisecond timestamp (\<^verbatim>\<open>Date.now()\<close>) as an
  \<^typ>\<open>int\<close>; a 24-bit colour as a \<^typ>\<open>nat\<close>. The field \<^verbatim>\<open>type\<close> of a node
  or light is a one-valued literal type and is left out.
\<close>

datatype PrimitiveType = Box | Sphere | Cylinder | Cone | Torus | Plane

record Transform =
  x :: real
  y :: real
  z :: real

record SceneNode =
  node_id :: string
  primitive :: PrimitiveType
  position :: Transform
  scale :: "Transform option"
  rotation :: "Transform option"

record LightNode =
  light_id :: string
  light_position :: Transform

text \<open>\<^verbatim>\<open>lights\<close> may be missing on a legacy document: every reader writes
  \<^verbatim>\<open>scene.lights ?? []\<close>.\<close>

record SceneEntity =
  scene_id :: string
  scene_name :: string
  createdAt :: int
  updatedAt :: int
  nodes :: "SceneNode list"
  lights :: "LightNode list option"

section \<open>Renderable objects (the part of THREE the viewport code reads and writes)\<close>

text \<open>
  \<^verbatim>\<open>THREE.Vector3\<close> and \<^verbatim>\<open>THREE.Euler\<close> are triples of numbers like
  \<^typ>\<open>Transform\<close> and share its type. A geometry is known only by what the code asks of
  it: whether it is a \<^verbatim>\<open>BufferGeometry\<close>, and whether it has a \<^verbatim>\<open>position\<close> attribute.
\<close>

datatype Geometry = BufferGeometry bool | NoBufferGeometry

datatype MaterialClass = MeshBasicMaterial | MeshStandardMaterial | OtherMaterial

text \<open>
  \<open>color\<close>, \<open>emissive\<close> and \<open>wireframe\<close> are \<open>None\<close> when the material has no such
  property (\<^verbatim>\<open>'color' in mat && mat.color instanceof THREE.Color\<close> is false).
\<close>

record Material =
  matClass :: MaterialClass
  color :: "nat option"
  emissive :: "nat option"
  wireframe :: "bool option"
  transparent :: bool
  opacity :: real
  polygonOffset :: bool
  polygonOffsetFactor :: real
  polygonOffsetUnits :: real
  needsUpdate :: bool

datatype MeshMaterial = NoMaterial | SingleMaterial Material | MaterialArray "Material list"

text \<open>A primitive renderable: a \<^verbatim>\<open>THREE.Mesh\<close> without children.\<close>

record Mesh =
  mesh_name :: string
  mesh_geometry :: Geometry
  mesh_material :: MeshMaterial
  mesh_position :: Transform
  mesh_rotation :: Transform
  mesh_scale :: Transform

record Box3 =
  box_min :: Transform
  box_max :: Transform

text \<open>
  An imported renderable: a tree of \<^verbatim>\<open>THREE.Object3D\<close>. \<open>od_mesh\<close> is \<open>Some\<close> when the
  node is a \<^verbatim>\<open>THREE.Mesh\<close>.
\<close>

record NodeData =
  od_name :: string
  od_mesh :: "(Geometry \<times> MeshMaterial) option"
  od_position :: Transform
  od_rotation :: Transform
  od_scale :: Transform

datatype Object3D = Object3D NodeData "Object3D list"

fun nodeData :: "Object3D \<Rightarrow> NodeData" where
  "nodeData (Object3D d cs) = d"

fun children :: "Object3D \<Rightarrow> Object3D list" where
  "children (Object3D d cs) = cs"

section \<open>viewport-objects.ts\<close>

text \<open>
  The numbers the code computes are computed by the JavaScript engine in IEEE double
  arithmetic, and bounding boxes by THREE; the code of neither is part of the repository.
  Where a function hands out a number it has computed, the operations it calls are
  parameters of the model: the engine's subtraction, multiplication and division on
  numbers and its constant \<^verbatim>\<open>Math.PI\<close>, and the methods
  \<^verbatim>\<open>new THREE.Box3().setFromObject(object)\<close>, \<^verbatim>\<open>box.isEmpty()\<close> and
  \<^verbatim>\<open>box.getCenter(...)\<close>. What is proved holds for every such arithmetic and library.
\<close>

record Arith =
  fsub :: "real \<Rightarrow> real \<Rightarrow> real"
  fmul :: "real \<Rightarrow> real \<Rightarrow> real"
  fdiv :: "real \<Rightarrow> real \<Rightarrow> real"
  MATH_PI :: real

record Box3Lib =
  setFromObject :: "Object3D \<Rightarrow> Box3"
  isEmpty :: "Box3 \<Rightarrow> bool"
  getCenter :: "Box3 \<Rightarrow> Transform"

text \<open>\<^verbatim>\<open>a.sub(b)\<close> on vectors subtracts component by component.\<close>

definition vsub :: "Arith \<Rightarrow> Transform \<Rightarrow> Transform \<Rightarrow> Transform" where
  "vsub ar a b = \<lparr>x = fsub ar (x a) (x b), y = fsub ar (y a) (y b), z = fsub ar (z a) (z b)\<rparr>"

fun setPosition :: "Object3D \<Rightarrow> Transform \<Rightarrow> Object3D" where
  "setPosition (Object3D d cs) p = Object3D (d\<lparr>od_position := p\<rparr>) cs"

definition alignObjectToGround :: "Arith \<Rightarrow> Box3Lib \<Rightarrow> Object3D \<Rightarrow> Object3D" where
  "alignObjectToGround ar lib object =
     (let box = setFromObject lib object in
      if \<not> isEmpty lib box then
        (let center = getCenter lib box;
             centred = setPosition object (vsub ar (od_position (nodeData object)) center);
             adjusted = setFromObject lib centred
         in setPosition centred
              ((od_position (nodeData centred))
                 \<lparr>y := fsub ar (y (od_position (nodeData centred))) (y (box_min adjusted))\<rparr>))
      else object)"

definition getPrimitiveYOffset :: "PrimitiveType \<Rightarrow> real" where
  "getPrimitiveYOffset t =
     (case t of Box \<Rightarrow> 0.5 | Sphere \<Rightarrow> 0.5 | Cylinder \<Rightarrow> 0.5 | Cone \<Rightarrow> 0.5
              | Torus \<Rightarrow> 0.15 | Plane \<Rightarrow> 0)"

definition origin :: Transform where
  "origin = \<lparr>x = 0, y = 0, z = 0\<rparr>"

section \<open>constants.ts\<close>

definition PRIMITIVE_COLOR :: nat where "PRIMITIVE_COLOR = 0x9099a4"
definition WIREFRAME_COLOR :: nat where "WIREFRAME_COLOR = 0x00ff00"
definition POLYGON_EDGE_COLOR :: nat where "POLYGON_EDGE_COLOR = 0x1a1a1a"
definition IMPORTED_DEFAULT_COLOR :: nat where "IMPORTED_DEFAULT_COLOR = 0xa1a8b2"

section \<open>Traversal of an object tree\<close>

text \<open>\<^verbatim>\<open>object.traverse(cb)\<close> visits the node, then each child's subtree. \<open>traverse\<close>
  lists the nodes in that order; \<open>traverseMap\<close> is a traversal whose callback rewrites the
  node it visits.\<close>

fun traverse :: "Object3D \<Rightarrow> NodeData list" where
  "traverse (Object3D d cs) = d # concat (map traverse cs)"

fun traverseMap :: "(NodeData \<Rightarrow> NodeData) \<Rightarrow> Object3D \<Rightarrow> Object3D" where
  "traverseMap f (Object3D d cs) = Object3D (f d) (map (traverseMap f) cs)"

section \<open>Material/lighting resolver\<close>

definition litMat :: "nat \<Rightarrow> Material" where
  "litMat c = \<lparr>matClass = MeshStandardMaterial, color = Some c, emissive = Some 0,
               wireframe = Some False, transparent = False, opacity = 1,
               polygonOffset = False, polygonOffsetFactor = 0, polygonOffsetUnits = 0,
               needsUpdate = False\<rparr>"

definition unlitMat :: "nat \<Rightarrow> Material" where
  "unlitMat c = \<lparr>matClass = MeshBasicMaterial, color = Some c, emissive = None,
                 wireframe = Some False, transparent = False, opacity = 1,
                 polygonOffset = False, polygonOffsetFactor = 0, polygonOffsetUnits = 0,
                 needsUpdate = False\<rparr>"

text \<open>The children of the light container: the ambient fill light, the directional light
  of a document light (named by the light's id), or anything else.\<close>

datatype LightChild = AmbientLight | DirectionalLightOf string | OtherChild string

fun isAmbientLight :: "LightChild \<Rightarrow> bool" where
  "isAmbientLight AmbientLight = True"
| "isAmbientLight _ = False"

text \<open>\<^verbatim>\<open>Object3D.remove(a)\<close> splices out the first index of \<open>a\<close>.\<close>

definition relightPrimitive :: "bool \<Rightarrow> Mesh \<Rightarrow> Mesh" where
  "relightPrimitive hasLights mesh =
     (let c = (case mesh_material mesh of
                 SingleMaterial oldMat \<Rightarrow> (case color oldMat of Some h \<Rightarrow> h | None \<Rightarrow> PRIMITIVE_COLOR)
               | _ \<Rightarrow> PRIMITIVE_COLOR);
          newMat = (if hasLights then litMat c else unlitMat c)
      in mesh\<lparr>mesh_material := SingleMaterial newMat\<rparr>)"

definition relightChild :: "bool \<Rightarrow> NodeData \<Rightarrow> NodeData" where
  "relightChild hasLights child =
     (case od_mesh child of
        None \<Rightarrow> child
      | Some (g, NoMaterial) \<Rightarrow> child
      | Some (g, material) \<Rightarrow>
          (let mats = (case material of MaterialArray ms \<Rightarrow> ms | SingleMaterial m \<Rightarrow> [m]
                                      | NoMaterial \<Rightarrow> []);
               c = (case mats of
                      [] \<Rightarrow> IMPORTED_DEFAULT_COLOR
                    | first # rest \<Rightarrow>
                        (case color first of Some h \<Rightarrow> h | None \<Rightarrow> IMPORTED_DEFAULT_COLOR));
               newMat = (if hasLights then litMat c else unlitMat c)
           in child\<lparr>od_mesh := Some (g, SingleMaterial newMat)\<rparr>))"

definition relightGroup :: "bool \<Rightarrow> LightChild list \<Rightarrow> LightChild list" where
  "relightGroup hasLights sceneLightsGroup =
     (if hasLights \<and> \<not> list_ex isAmbientLight sceneLightsGroup then
        sceneLightsGroup @ [AmbientLight]
      else if \<not> hasLights then
        fold remove1 (filter isAmbientLight sceneLightsGroup) sceneLightsGroup
      else sceneLightsGroup)"

text \<open>\<^verbatim>\<open>applyMaterialsForLighting\<close> mutates its three container arguments; the model
  returns them. \<open>relightPrimitive\<close>, \<open>relightChild\<close> and \<open>relightGroup\<close> are its three
  statements, in order.\<close>

definition applyMaterialsForLighting ::
  "bool \<Rightarrow> (string \<times> Mesh) list \<Rightarrow> (string \<times> Object3D) list \<Rightarrow> LightChild list \<Rightarrow>
   (string \<times> Mesh) list \<times> (string \<times> Object3D) list \<times> LightChild list" where
  "applyMaterialsForLighting hasLights primitiveMeshes importedObjects sceneLightsGroup =
     (map (\<lambda>(k, mesh). (k, relightPrimitive hasLights mesh)) primitiveMeshes,
      map (\<lambda>(k, object). (k, traverseMap (relightChild hasLights) object)) importedObjects,
      relightGroup hasLights sceneLightsGroup)"

definition ambientCount :: "LightChild list \<Rightarrow> nat" where
  "ambientCount cs = length (filter isAmbientLight cs)"

text \<open>A run of calls with the given \<^verbatim>\<open>hasLights\<close> flags, on the same three containers.\<close>

definition applyMaterialsForLightingRun ::
  "bool list \<Rightarrow> (string \<times> Mesh) list \<times> (string \<times> Object3D) list \<times> LightChild list \<Rightarrow>
   (string \<times> Mesh) list \<times> (string \<times> Object3D) list \<times> LightChild list" where
  "applyMaterialsForLightingRun flags start =
     fold (\<lambda>hasLights (pm, io, g). applyMaterialsForLighting hasLights pm io g) flags start"

section \<open>viewport-display.ts\<close>

datatype DisplayMode = Solid | Wireframe

definition EDGE_THRESHOLD_ANGLE :: real where "EDGE_THRESHOLD_ANGLE = 1"

definition ensurePolygonOffset :: "Material \<Rightarrow> Material" where
  "ensurePolygonOffset mat =
     mat\<lparr>polygonOffset := True, polygonOffsetFactor := 1, polygonOffsetUnits := 1\<rparr>"

definition applyModeToMaterial :: "Material \<Rightarrow> bool \<Rightarrow> nat option \<Rightarrow> Material" where
  "applyModeToMaterial mat isWireframe originalColor =
     (let m1 = ensurePolygonOffset mat;
          m2 = (case wireframe m1 of None \<Rightarrow> m1 | Some w \<Rightarrow> m1\<lparr>wireframe := Some False\<rparr>);
          m3 = (if isWireframe then
                  (let m = m2\<lparr>transparent := True, opacity := 0.03\<rparr>
                   in case emissive m of None \<Rightarrow> m | Some e \<Rightarrow> m\<lparr>emissive := Some 0\<rparr>)
                else
                  (let m = m2\<lparr>transparent := False, opacity := 1.0\<rparr>
                   in case color m of
                        None \<Rightarrow> m
                      | Some c \<Rightarrow>
                          m\<lparr>color := Some (case originalColor of Some oc \<Rightarrow> oc
                                                               | None \<Rightarrow> PRIMITIVE_COLOR)\<rparr>))
      in m3\<lparr>needsUpdate := True\<rparr>)"

text \<open>The \<^verbatim>\<open>instanceof THREE.Material\<close> / \<^verbatim>\<open>Array.isArray\<close> dispatch that
  \<^verbatim>\<open>applyDisplayMode\<close> writes out for primitives and for imported children.\<close>

fun applyModeToMeshMaterial :: "bool \<Rightarrow> nat option \<Rightarrow> MeshMaterial \<Rightarrow> MeshMaterial" where
  "applyModeToMeshMaterial isWireframe oc (SingleMaterial mat) =
     SingleMaterial (applyModeToMaterial mat isWireframe oc)"
| "applyModeToMeshMaterial isWireframe oc (MaterialArray mats) =
     MaterialArray (map (\<lambda>mat. applyModeToMaterial mat isWireframe oc) mats)"
| "applyModeToMeshMaterial isWireframe oc NoMaterial = NoMaterial"

definition applyModeToChild :: "bool \<Rightarrow> NodeData \<Rightarrow> NodeData" where
  "applyModeToChild isWireframe child =
     (case od_mesh child of
        None \<Rightarrow> child
      | Some (g, mat) \<Rightarrow> child\<lparr>od_mesh := Some (g, applyModeToMeshMaterial isWireframe None mat)\<rparr>)"

definition applyDisplayMode ::
  "DisplayMode \<Rightarrow> (string \<times> Mesh) list \<Rightarrow> (string \<times> Object3D) list \<Rightarrow>
   (string \<times> Mesh) list \<times> (string \<times> Object3D) list" where
  "applyDisplayMode displayMode primitiveMeshes importedObjects =
     (let isWireframe = (displayMode = Wireframe) in
      (map (\<lambda>(k, mesh).
              (k, mesh\<lparr>mesh_material :=
                         applyModeToMeshMaterial isWireframe (Some PRIMITIVE_COLOR)
                           (mesh_material mesh)\<rparr>))
           primitiveMeshes,
       map (\<lambda>(k, object). (k, traverseMap (applyModeToChild isWireframe) object))
           importedObjects))"

text \<open>The materials a registry holds, in iteration order.\<close>

fun materialsOf :: "MeshMaterial \<Rightarrow> Material list" where
  "materialsOf NoMaterial = []"
| "materialsOf (SingleMaterial m) = [m]"
| "materialsOf (MaterialArray ms) = ms"

definition childMaterials :: "NodeData \<Rightarrow> Material list" where
  "childMaterials child = (case od_mesh child of None \<Rightarrow> [] | Some (g, mat) \<Rightarrow> materialsOf mat)"

definition primitiveMaterials :: "(string \<times> Mesh) list \<Rightarrow> Material list" where
  "primitiveMaterials primitiveMeshes =
     concat (map (\<lambda>(k, mesh). materialsOf (mesh_material mesh)) primitiveMeshes)"

definition importedMaterials :: "(string \<times> Object3D) list \<Rightarrow> Material list" where
  "importedMaterials importedObjects =
     concat (map (\<lambda>(k, object). concat (map childMaterials (traverse object))) importedObjects)"

subsection \<open>Edge and vertex overlays\<close>

text \<open>
  An overlay object is recorded by the mesh it was built from, its colour, whether it
  copies the world or the local transform, and the angle threshold.
  \<^verbatim>\<open>THREE.EdgesGeometry\<close> is library code: built from a geometry without a
  \<^verbatim>\<open>position\<close> attribute it throws, which \<^verbatim>\<open>addEdgeLinesForMesh\<close> catches and logs,
  adding nothing.
\<close>

record LineSegments2 =
  line_source :: string
  line_color :: nat
  line_useWorldTransform :: bool
  line_thresholdAngle :: real

record Points =
  points_source :: string
  points_useWorldTransform :: bool

definition addEdgeLinesForMesh ::
  "string \<Rightarrow> Geometry \<Rightarrow> LineSegments2 list \<Rightarrow> nat \<Rightarrow> bool \<Rightarrow> real \<Rightarrow> LineSegments2 list" where
  "addEdgeLinesForMesh name geometry edgeHelpers materialColor useWorldTransform thresholdAngle =
     (case geometry of
        NoBufferGeometry \<Rightarrow> edgeHelpers
      | BufferGeometry hasPosition \<Rightarrow>
          if hasPosition then
            edgeHelpers @ [\<lparr>line_source = name, line_color = materialColor,
                             line_useWorldTransform = useWorldTransform,
                             line_thresholdAngle = thresholdAngle\<rparr>]
          else edgeHelpers)"

text \<open>JavaScript truthiness of a \<^verbatim>\<open>string | null | undefined\<close>: the empty string is
  falsy too.\<close>

definition truthy :: "string option \<Rightarrow> bool" where
  "truthy v = (case v of None \<Rightarrow> False | Some s \<Rightarrow> s \<noteq> [])"

text \<open>\<^verbatim>\<open>obj.traverse(child => { if (child instanceof THREE.Mesh) addEdgeLinesForMesh(...) })\<close>\<close>

definition addEdgeLinesForChild :: "nat \<Rightarrow> NodeData \<Rightarrow> LineSegments2 list \<Rightarrow> LineSegments2 list" where
  "addEdgeLinesForChild materialColor child edgeHelpers =
     (case od_mesh child of
        None \<Rightarrow> edgeHelpers
      | Some (g, mat) \<Rightarrow> addEdgeLinesForMesh (od_name child) g edgeHelpers materialColor True 0)"

definition addEdgeLinesForObject :: "Object3D \<Rightarrow> LineSegments2 list \<Rightarrow> nat \<Rightarrow> LineSegments2 list" where
  "addEdgeLinesForObject object edgeHelpers materialColor =
     fold (addEdgeLinesForChild materialColor) (traverse object) edgeHelpers"

definition updatePolygonEdgesDisplay ::
  "DisplayMode \<Rightarrow> bool \<Rightarrow> string option \<Rightarrow> bool \<Rightarrow> bool \<Rightarrow> (string \<times> Mesh) list \<Rightarrow>
   (string \<times> Object3D) list \<Rightarrow> LineSegments2 list \<Rightarrow> LineSegments2 list" where
  "updatePolygonEdgesDisplay displayMode showPolygonEdges selectedObjectId selectedIsPrimitive
       selectedIsLight primitiveMeshes importedObjects edgeHelpers =
     (let cleared = [];
          showEdges = (displayMode = Wireframe \<or> showPolygonEdges)
      in if \<not> showEdges then cleared
         else
           let col = (if displayMode = Wireframe then WIREFRAME_COLOR else POLYGON_EDGE_COLOR);
               hasSelection = (truthy selectedObjectId \<and> \<not> selectedIsLight);
               showAll = (displayMode = Wireframe \<or> \<not> hasSelection)
           in if showAll then
                fold (\<lambda>(k, object) acc. addEdgeLinesForObject object acc col) importedObjects
                  (fold (\<lambda>(k, mesh) acc.
                           addEdgeLinesForMesh (mesh_name mesh) (mesh_geometry mesh) acc col False
                             EDGE_THRESHOLD_ANGLE)
                        primitiveMeshes cleared)
              else if selectedIsPrimitive then
                (case map_of primitiveMeshes (the selectedObjectId) of
                   None \<Rightarrow> cleared
                 | Some mesh \<Rightarrow>
                     addEdgeLinesForMesh (mesh_name mesh) (mesh_geometry mesh) cleared col False
                       EDGE_THRESHOLD_ANGLE)
              else
                (case map_of importedObjects (the selectedObjectId) of
                   None \<Rightarrow> cleared
                 | Some obj \<Rightarrow> addEdgeLinesForObject obj cleared col))"

definition addVertexPointsForMesh :: "string \<Rightarrow> Geometry \<Rightarrow> Points list \<Rightarrow> bool \<Rightarrow> Points list" where
  "addVertexPointsForMesh name geometry vertexHelpers useWorldTransform =
     (case geometry of
        BufferGeometry True \<Rightarrow>
          vertexHelpers @ [\<lparr>points_source = name, points_useWorldTransform = useWorldTransform\<rparr>]
      | _ \<Rightarrow> vertexHelpers)"

definition addVertexPointsForChild :: "NodeData \<Rightarrow> Points list \<Rightarrow> Points list" where
  "addVertexPointsForChild child vertexHelpers =
     (case od_mesh child of
        None \<Rightarrow> vertexHelpers
      | Some (g, mat) \<Rightarrow> addVertexPointsForMesh (od_name child) g vertexHelpers True)"

definition addVertexPointsForObject :: "Object3D \<Rightarrow> Points list \<Rightarrow> Points list" where
  "addVertexPointsForObject object vertexHelpers =
     fold addVertexPointsForChild (traverse object) vertexHelpers"

definition updateVerticesDisplay ::
  "bool \<Rightarrow> string option \<Rightarrow> bool \<Rightarrow> bool \<Rightarrow> (string \<times> Mesh) list \<Rightarrow>
   (string \<times> Object3D) list \<Rightarrow> Points list \<Rightarrow> Points list" where
  "updateVerticesDisplay showVertices selectedObjectId selectedIsPrimitive selectedIsLight
       primitiveMeshes importedObjects vertexHelpers =
     (let cleared = [] in
      if \<not> showVertices then cleared
      else
        let hasSelection = (truthy selectedObjectId \<and> \<not> selectedIsLight)
        in if hasSelection then
             (if selectedIsPrimitive then
                (case map_of primitiveMeshes (the selectedObjectId) of
                   None \<Rightarrow> cleared
                 | Some mesh \<Rightarrow>
                     addVertexPointsForMesh (mesh_name mesh) (mesh_geometry mesh) cleared False)
              else
                (case map_of importedObjects (the selectedObjectId) of
                   None \<Rightarrow> cleared
                 | Some obj \<Rightarrow> addVertexPointsForObject obj cleared))
           else
             fold (\<lambda>(k, object) acc. addVertexPointsForObject object acc) importedObjects
               (fold (\<lambda>(k, mesh) acc.
                        addVertexPointsForMesh (mesh_name mesh) (mesh_geometry mesh) acc False)
                     primitiveMeshes cleared))"

text \<open>The registries of the display tests: box meshes \<open>mesh-0\<close>, \<open>mesh-1\<close>, ... with the
  primitive colour, and one imported group holding one mesh of colour \<open>0xa1a8b2\<close>.\<close>

definition unitScale :: Transform where
  "unitScale = \<lparr>x = 1, y = 1, z = 1\<rparr>"

definition testMesh :: "string \<Rightarrow> nat \<Rightarrow> Mesh" where
  "testMesh name c =
     \<lparr>mesh_name = name, mesh_geometry = BufferGeometry True,
      mesh_material = SingleMaterial (unlitMat c),
      mesh_position = origin, mesh_rotation = origin, mesh_scale = unitScale\<rparr>"

definition testImported :: "string \<Rightarrow> nat \<Rightarrow> Object3D" where
  "testImported name c =
     Object3D \<lparr>od_name = name, od_mesh = None, od_position = origin, od_rotation = origin,
               od_scale = unitScale\<rparr>
       [Object3D \<lparr>od_name = [], od_mesh = Some (BufferGeometry True, SingleMaterial (unlitMat c)),
                  od_position = origin, od_rotation = origin, od_scale = unitScale\<rparr> []]"

text \<open>What the edge-overlay claim calls a registered mesh: one whose geometry yields
  edge lines.\<close>

definition isEdgeable :: "NodeData \<Rightarrow> bool" where
  "isEdgeable child =
     (case od_mesh child of None \<Rightarrow> False | Some (g, mat) \<Rightarrow> g = BufferGeometry True)"

definition hasEdgeableMesh :: "Object3D \<Rightarrow> bool" where
  "hasEdgeableMesh obj = list_ex isEdgeable (traverse obj)"

definition registeredMesh :: "(string \<times> Mesh) list \<Rightarrow> (string \<times> Object3D) list \<Rightarrow> bool" where
  "registeredMesh primitiveMeshes importedObjects =
     (list_ex (\<lambda>(k, mesh). mesh_geometry mesh = BufferGeometry True) primitiveMeshes
      \<or> list_ex (\<lambda>(k, obj). hasEdgeableMesh obj) importedObjects)"

text \<open>The object the edge overlay is scoped to in solid mode when something other than a
  light is selected: the entry of the selected id in the registry of its kind.\<close>

definition selectedHasEdges ::
  "string option \<Rightarrow> bool \<Rightarrow> (string \<times> Mesh) list \<Rightarrow> (string \<times> Object3D) list \<Rightarrow> bool" where
  "selectedHasEdges selectedObjectId selectedIsPrimitive primitiveMeshes importedObjects =
     (if selectedIsPrimitive then
        (case map_of primitiveMeshes (the selectedObjectId) of
           None \<Rightarrow> False
         | Some mesh \<Rightarrow> mesh_geometry mesh = BufferGeometry True)
      else
        (case map_of importedObjects (the selectedObjectId) of
           None \<Rightarrow> False
         | Some obj \<Rightarrow> hasEdgeableMesh obj))"

definition testMeshMap :: "(string \<times> Mesh) list" where
  "testMeshMap = [(''mesh-0'', testMesh ''mesh-0'' 0x9099a4)]"

definition testImportedMap :: "(string \<times> Object3D) list" where
  "testImportedMap = [(''imported-0'', testImported ''imported-0'' 0xa1a8b2)]"

section \<open>The viewport controller: state\<close>

text \<open>A light billboard and the directional light of a document light.\<close>

record Sprite =
  sprite_name :: string
  sprite_position :: Transform
  sprite_rotation :: Transform
  sprite_scale :: Transform

record DirectionalLight =
  dl_position :: Transform
  dl_target :: Transform
  dl_castShadow :: bool

text \<open>What \<^verbatim>\<open>selectedObject\<close> can hold. The component keeps a reference to the
  renderable; the model keeps the renderable's value as of the last \<^verbatim>\<open>selectObject\<close>.\<close>

datatype Renderable = MeshR Mesh | SpriteR Sprite | ObjectR Object3D

fun rPosition :: "Renderable \<Rightarrow> Transform" where
  "rPosition (MeshR m) = mesh_position m"
| "rPosition (SpriteR sp) = sprite_position sp"
| "rPosition (ObjectR obj) = od_position (nodeData obj)"

fun rRotation :: "Renderable \<Rightarrow> Transform" where
  "rRotation (MeshR m) = mesh_rotation m"
| "rRotation (SpriteR sp) = sprite_rotation sp"
| "rRotation (ObjectR obj) = od_rotation (nodeData obj)"

fun rScale :: "Renderable \<Rightarrow> Transform" where
  "rScale (MeshR m) = mesh_scale m"
| "rScale (SpriteR sp) = sprite_scale sp"
| "rScale (ObjectR obj) = od_scale (nodeData obj)"

datatype TransformMode = Translate | Rotate | Scale

record TransformControls =
  tc_mode :: TransformMode
  tc_object :: "Renderable option"

datatype Registry = Primitives | Imported | Lights

text \<open>
  The effects of the controller that leave it, in the order they happen: the events it
  emits to its parent, its calls of \<^verbatim>\<open>selectObject\<close> (with the object id passed),
  of \<^verbatim>\<open>disposeObject3D\<close> (with the registry and key of the renderable passed),
  of \<^verbatim>\<open>light.dispose()\<close>, the renderables it creates, the decodes it starts and
  the errors it logs.
\<close>

datatype Event =
    CallSelectObject "string option"
  | EmitSelectObject "string option" bool bool
  | EmitUpdateNodePosition string Transform
  | EmitUpdateNodeRotation string Transform
  | EmitUpdateNodeScale string Transform
  | EmitUpdateLightPosition string Transform
  | EmitUpdateImportedPosition string Transform
  | EmitUpdateImportedRotation string Transform
  | EmitUpdateImportedScale string Transform
  | DisposeObject3D Registry string
  | LightDispose string
  | Created Registry string
  | CreatedSceneLight string
  | LoadStarted string
  | ConsoleError string

record ImportedModelAsset =
  asset_id :: string
  asset_name :: string
  asset_format :: string
  asset_url :: string

record Props =
  sceneData :: SceneEntity
  importedAssets :: "ImportedModelAsset list"
  selectedObjectId :: "string option"
  selectedIsPrimitive :: bool
  selectedIsLight :: bool

text \<open>
  The module state of the component. A JavaScript \<^verbatim>\<open>Map\<close> is an association list in
  insertion order with distinct keys, a \<^verbatim>\<open>Set\<close> a list of distinct elements. The three
  render groups that mirror the registries (\<^verbatim>\<open>primitiveGroup\<close>, \<^verbatim>\<open>importedGroup\<close>,
  \<^verbatim>\<open>lightGroup\<close>), the cameras and the pointer and keyboard bookkeeping are left
  out: no function below reads them.
\<close>

record Viewport =
  primitiveMeshes :: "(string \<times> Mesh) list"
  importedObjects :: "(string \<times> Object3D) list"
  lightObjects :: "(string \<times> Sprite) list"
  sceneLights :: "(string \<times> DirectionalLight) list"
  loadingImports :: "string list"
  sceneLightsGroup :: "LightChild list"
  vertexHelpers :: "Points list"
  edgeHelpers :: "LineSegments2 list"
  displayMode :: DisplayMode
  showPolygonEdges :: bool
  showVertices :: bool
  selectedObject :: "Renderable option"
  currentSelectedId :: "string option"
  isPrimitive :: bool
  isLight :: bool
  selectionHelper :: "Renderable option"
  polygonCountDirty :: bool
  isSyncingImports :: bool
  transformControls :: "TransformControls option"
  events :: "Event list"

fun mapSet :: "'k \<Rightarrow> 'v \<Rightarrow> ('k \<times> 'v) list \<Rightarrow> ('k \<times> 'v) list" where
  "mapSet k v [] = [(k, v)]"
| "mapSet k v (p # ps) = (if fst p = k then (k, v) # ps else p # mapSet k v ps)"

definition mapDelete :: "'k \<Rightarrow> ('k \<times> 'v) list \<Rightarrow> ('k \<times> 'v) list" where
  "mapDelete k ps = filter (\<lambda>p. fst p \<noteq> k) ps"

text \<open>A write to the object registered under \<open>k\<close>: the object is shared, so the
  registry sees it.\<close>

definition mapUpdate :: "'k \<Rightarrow> ('v \<Rightarrow> 'v) \<Rightarrow> ('k \<times> 'v) list \<Rightarrow> ('k \<times> 'v) list" where
  "mapUpdate k f ps = map (\<lambda>(j, v). if j = k then (j, f v) else (j, v)) ps"

definition mapKeys :: "('k \<times> 'v) list \<Rightarrow> 'k list" where
  "mapKeys ps = map fst ps"

definition setAdd :: "'k \<Rightarrow> 'k list \<Rightarrow> 'k list" where
  "setAdd k ks = (if k \<in> set ks then ks else ks @ [k])"

definition DEG2RAD :: real where "DEG2RAD = pi / 180"
definition RAD2DEG :: "Arith \<Rightarrow> real" where "RAD2DEG ar = fdiv ar 180 (MATH_PI ar)"

section \<open>The viewport controller: selection and display refresh\<close>

definition logEvent :: "Event \<Rightarrow> Viewport \<Rightarrow> Viewport" where
  "logEvent e s = s\<lparr>events := events s @ [e]\<rparr>"

definition hasLights :: "Props \<Rightarrow> bool" where
  "hasLights props = (case lights (sceneData props) of None \<Rightarrow> False | Some l \<Rightarrow> 0 < length l)"

text \<open>The two calls \<^verbatim>\<open>applyMaterialsForLighting(lit, primitiveMeshes, importedObjects,
  sceneLightsGroup); applyDisplayMode(displayMode.value, primitiveMeshes, importedObjects)\<close>
  on the module's registries.\<close>

definition applyLightingAndMode :: "bool \<Rightarrow> Viewport \<Rightarrow> Viewport" where
  "applyLightingAndMode lit s =
     (case applyMaterialsForLighting lit (primitiveMeshes s) (importedObjects s)
             (sceneLightsGroup s) of
        (pm1, io1, g1) \<Rightarrow>
          (case applyDisplayMode (displayMode s) pm1 io1 of
             (pm2, io2) \<Rightarrow>
               s\<lparr>primitiveMeshes := pm2, importedObjects := io2, sceneLightsGroup := g1\<rparr>))"

definition refreshSceneDisplay :: "Props \<Rightarrow> Viewport \<Rightarrow> Viewport" where
  "refreshSceneDisplay props s =
     (let s1 = applyLightingAndMode (hasLights props) s;
          s2 = s1\<lparr>vertexHelpers :=
                    updateVerticesDisplay (showVertices s1) (selectedObjectId props)
                      (selectedIsPrimitive props) (selectedIsLight props)
                      (primitiveMeshes s1) (importedObjects s1) (vertexHelpers s1)\<rparr>
      in s2\<lparr>edgeHelpers :=
               updatePolygonEdgesDisplay (displayMode s2) (showPolygonEdges s2)
                 (selectedObjectId props) (selectedIsPrimitive props)
                 (selectedIsLight props) (primitiveMeshes s2) (importedObjects s2)
                 (edgeHelpers s2)\<rparr>)"

definition markPolygonCountDirty :: "Viewport \<Rightarrow> Viewport" where
  "markPolygonCountDirty s = s\<lparr>polygonCountDirty := True\<rparr>"

definition updateSelectionHelper :: "Renderable option \<Rightarrow> Viewport \<Rightarrow> Viewport" where
  "updateSelectionHelper object s = s\<lparr>selectionHelper := object\<rparr>"

definition selectObject ::
  "Renderable option \<Rightarrow> string option \<Rightarrow> bool \<Rightarrow> bool \<Rightarrow> Viewport \<Rightarrow> Viewport" where
  "selectObject object objectId prim light s =
     (let s1 = logEvent (CallSelectObject objectId)
                 (s\<lparr>selectedObject := object, currentSelectedId := objectId,
                    isPrimitive := prim, isLight := light\<rparr>);
          s2 = updateSelectionHelper object s1
      in case transformControls s2 of
           None \<Rightarrow> s2
         | Some tc \<Rightarrow> s2\<lparr>transformControls := Some (tc\<lparr>tc_object := object\<rparr>)\<rparr>)"

section \<open>The viewport controller: primitives sync\<close>

definition makeGeometryForPrimitive :: "PrimitiveType \<Rightarrow> Geometry" where
  "makeGeometryForPrimitive t = BufferGeometry True"

definition makePrimitiveMesh :: "string \<Rightarrow> PrimitiveType \<Rightarrow> Mesh" where
  "makePrimitiveMesh nodeId primitiveType =
     \<lparr>mesh_name = nodeId, mesh_geometry = makeGeometryForPrimitive primitiveType,
      mesh_material = SingleMaterial
        ((unlitMat PRIMITIVE_COLOR)\<lparr>polygonOffset := True, polygonOffsetFactor := 1,
                                     polygonOffsetUnits := 1\<rparr>),
      mesh_position = origin, mesh_rotation = origin, mesh_scale = unitScale\<rparr>"

text \<open>The callback of \<^verbatim>\<open>primitiveMeshes.forEach\<close> in \<^verbatim>\<open>syncPrimitiveNodes\<close>.\<close>

definition removeStalePrimitive :: "string list \<Rightarrow> string \<times> Mesh \<Rightarrow> Viewport \<Rightarrow> Viewport" where
  "removeStalePrimitive nodeIds entry s =
     (case entry of (nodeId, mesh) \<Rightarrow>
        if nodeId \<in> set nodeIds then s
        else
          let s1 = (if currentSelectedId s = Some nodeId then
                      logEvent (EmitSelectObject None False False)
                        (selectObject None None False False s)
                    else s);
              s2 = logEvent (DisposeObject3D Primitives nodeId) s1
          in s2\<lparr>primitiveMeshes := mapDelete nodeId (primitiveMeshes s2)\<rparr>)"

text \<open>The callback of \<^verbatim>\<open>props.sceneData.nodes.forEach\<close>.\<close>

definition placeMesh :: "SceneNode \<Rightarrow> Mesh \<Rightarrow> Mesh" where
  "placeMesh node mesh =
     (let yOffset = getPrimitiveYOffset (primitive node);
          sc = (case scale node of Some v \<Rightarrow> v | None \<Rightarrow> \<lparr>x = 1, y = 1, z = 1\<rparr>);
          r = (case rotation node of Some v \<Rightarrow> v | None \<Rightarrow> \<lparr>x = 0, y = 0, z = 0\<rparr>)
      in mesh\<lparr>mesh_position := \<lparr>x = x (position node), y = y (position node) + yOffset,
                                  z = z (position node)\<rparr>,
               mesh_scale := \<lparr>x = x sc, y = y sc, z = z sc\<rparr>,
               mesh_rotation := \<lparr>x = x r * DEG2RAD, y = y r * DEG2RAD, z = z r * DEG2RAD\<rparr>\<rparr>)"

definition syncNode :: "SceneNode \<Rightarrow> Viewport \<Rightarrow> Viewport" where
  "syncNode node s =
     (let s1 = (case map_of (primitiveMeshes s) (node_id node) of
                  Some m \<Rightarrow> s
                | None \<Rightarrow>
                    logEvent (Created Primitives (node_id node))
                      (s\<lparr>primitiveMeshes :=
                           mapSet (node_id node) (makePrimitiveMesh (node_id node) (primitive node))
                             (primitiveMeshes s)\<rparr>))
      in s1\<lparr>primitiveMeshes := mapUpdate (node_id node) (placeMesh node) (primitiveMeshes s1)\<rparr>)"

text \<open>The last statement of \<^verbatim>\<open>syncPrimitiveNodes\<close>: the selection is attached again to
  the mesh registered under the selected id.\<close>

definition reattachPrimitive :: "Viewport \<Rightarrow> Viewport" where
  "reattachPrimitive s =
     (if selectedObject s \<noteq> None \<and> truthy (currentSelectedId s) \<and> isPrimitive s then
        (case map_of (primitiveMeshes s) (the (currentSelectedId s)) of
           None \<Rightarrow> s
         | Some mesh \<Rightarrow> selectObject (Some (MeshR mesh)) (currentSelectedId s) True False s)
      else s)"

definition syncPrimitiveNodes :: "Props \<Rightarrow> Viewport \<Rightarrow> Viewport" where
  "syncPrimitiveNodes props s =
     (let nodeIds = map node_id (nodes (sceneData props));
          s1 = fold (removeStalePrimitive nodeIds) (primitiveMeshes s) s;
          s2 = fold syncNode (nodes (sceneData props)) s1;
          s3 = refreshSceneDisplay props (markPolygonCountDirty s2)
      in reattachPrimitive s3)"

section \<open>The viewport controller: lights sync\<close>

definition makeLightBillboard :: "string \<Rightarrow> Sprite" where
  "makeLightBillboard lightId =
     \<lparr>sprite_name = lightId, sprite_position = origin, sprite_rotation = origin,
      sprite_scale = \<lparr>x = 0.8, y = 0.8, z = 1\<rparr>\<rparr>"

text \<open>The callbacks of \<^verbatim>\<open>lightObjects.forEach\<close>, \<^verbatim>\<open>sceneLights.forEach\<close> and
  \<^verbatim>\<open>lights.forEach\<close> in \<^verbatim>\<open>syncLights\<close>.\<close>

definition removeStaleLightObject :: "string list \<Rightarrow> string \<times> Sprite \<Rightarrow> Viewport \<Rightarrow> Viewport" where
  "removeStaleLightObject lightIds entry s =
     (case entry of (lid, obj) \<Rightarrow>
        if lid \<in> set lightIds then s
        else
          let s1 = (if currentSelectedId s = Some lid then
                      logEvent (EmitSelectObject None False False)
                        (selectObject None None False False s)
                    else s);
              s2 = logEvent (DisposeObject3D Lights lid) s1
          in s2\<lparr>lightObjects := mapDelete lid (lightObjects s2)\<rparr>)"

definition removeStaleSceneLight ::
  "string list \<Rightarrow> string \<times> DirectionalLight \<Rightarrow> Viewport \<Rightarrow> Viewport" where
  "removeStaleSceneLight lightIds entry s =
     (case entry of (lid, light) \<Rightarrow>
        if lid \<in> set lightIds then s
        else
          let s1 = s\<lparr>sceneLightsGroup := remove1 (DirectionalLightOf lid) (sceneLightsGroup s)\<rparr>;
              s2 = logEvent (LightDispose lid) s1
          in s2\<lparr>sceneLights := mapDelete lid (sceneLights s2)\<rparr>)"

definition syncLight :: "LightNode \<Rightarrow> Viewport \<Rightarrow> Viewport" where
  "syncLight light s =
     (let s1 = (case map_of (lightObjects s) (light_id light) of
                  Some obj \<Rightarrow> s
                | None \<Rightarrow>
                    logEvent (Created Lights (light_id light))
                      (s\<lparr>lightObjects :=
                           mapSet (light_id light) (makeLightBillboard (light_id light))
                             (lightObjects s)\<rparr>));
          s2 = s1\<lparr>lightObjects :=
                    mapUpdate (light_id light)
                      (\<lambda>obj. obj\<lparr>sprite_position := light_position light\<rparr>)
                      (lightObjects s1)\<rparr>;
          s3 = (case map_of (sceneLights s2) (light_id light) of
                  Some threeLight \<Rightarrow> s2
                | None \<Rightarrow>
                    logEvent (CreatedSceneLight (light_id light))
                      (s2\<lparr>sceneLights :=
                            mapSet (light_id light)
                              \<lparr>dl_position = origin, dl_target = origin, dl_castShadow = False\<rparr>
                              (sceneLights s2),
                          sceneLightsGroup :=
                            sceneLightsGroup s2 @ [DirectionalLightOf (light_id light)]\<rparr>))
      in s3\<lparr>sceneLights :=
               mapUpdate (light_id light)
                 (\<lambda>threeLight. threeLight\<lparr>dl_position := light_position light,
                                           dl_target := \<lparr>x = 0, y = 0, z = 0\<rparr>\<rparr>)
                 (sceneLights s3)\<rparr>)"

definition lightsOf :: "Props \<Rightarrow> LightNode list" where
  "lightsOf props = (case lights (sceneData props) of None \<Rightarrow> [] | Some l \<Rightarrow> l)"

definition reattachLight :: "Viewport \<Rightarrow> Viewport" where
  "reattachLight s =
     (if selectedObject s \<noteq> None \<and> truthy (currentSelectedId s) \<and> isLight s then
        (case map_of (lightObjects s) (the (currentSelectedId s)) of
           None \<Rightarrow> s
         | Some obj \<Rightarrow> selectObject (Some (SpriteR obj)) (currentSelectedId s) False True s)
      else s)"

definition syncLights :: "Props \<Rightarrow> Viewport \<Rightarrow> Viewport" where
  "syncLights props s =
     (let ls = lightsOf props;
          lightIds = map light_id ls;
          s1 = fold (removeStaleLightObject lightIds) (lightObjects s) s;
          s2 = fold (removeStaleSceneLight lightIds) (sceneLights s1) s1;
          s3 = fold syncLight ls s2;
          s4 = applyLightingAndMode (0 < length ls) s3
      in reattachLight s4)"

section \<open>The viewport controller: imported assets sync\<close>

text \<open>
  \<^verbatim>\<open>syncImportedAssets\<close> is an \<^verbatim>\<open>async\<close> function with one \<^verbatim>\<open>await\<close>, inside
  its \<^verbatim>\<open>for ... of\<close> loop. An invocation runs until it returns or reaches the
  \<^verbatim>\<open>await\<close>; there it is suspended as \<open>Awaiting asset i\<close>, with \<open>i\<close> the index the array
  iterator will read next, and is resumed later with the outcome of the decode. Other
  handlers, a second invocation among them, run in between on the same state.
\<close>

datatype SyncTask = Finished | Awaiting ImportedModelAsset nat

definition removeStaleImported :: "string list \<Rightarrow> string \<times> Object3D \<Rightarrow> Viewport \<Rightarrow> Viewport" where
  "removeStaleImported activeAssetIds entry s =
     (case entry of (assetId, object) \<Rightarrow>
        if assetId \<in> set activeAssetIds then s
        else
          let s1 = (if currentSelectedId s = Some assetId then
                      logEvent (EmitSelectObject None False False)
                        (selectObject None None False False s)
                    else s);
              s2 = logEvent (DisposeObject3D Imported assetId) s1
          in s2\<lparr>importedObjects := mapDelete assetId (importedObjects s2)\<rparr>)"

text \<open>The \<^verbatim>\<open>for ... of\<close> loop from index \<open>i\<close> on, up to the next \<^verbatim>\<open>await\<close> or to the
  outer \<^verbatim>\<open>finally\<close>.\<close>

fun loadLoop :: "ImportedModelAsset list \<Rightarrow> nat \<Rightarrow> Viewport \<Rightarrow> Viewport \<times> SyncTask" where
  "loadLoop [] i s = (s\<lparr>isSyncingImports := False\<rparr>, Finished)"
| "loadLoop (asset # rest) i s =
     (if asset_id asset \<in> set (mapKeys (importedObjects s))
         \<or> asset_id asset \<in> set (loadingImports s)
      then loadLoop rest (Suc i) s
      else (logEvent (LoadStarted (asset_id asset))
              (s\<lparr>loadingImports := setAdd (asset_id asset) (loadingImports s)\<rparr>),
            Awaiting asset (Suc i)))"

text \<open>
  The first half of the \<^verbatim>\<open>try\<close> block of an invocation that passed the re-entrancy
  guard: the flag is set, stale entries are removed, and the display is refreshed if
  something was removed (\<^verbatim>\<open>removedAny\<close> is set by the removal callback exactly when
  some registered id is not active).
\<close>

definition afterRemovals :: "Props \<Rightarrow> Viewport \<Rightarrow> Viewport" where
  "afterRemovals props s =
     (let s0 = s\<lparr>isSyncingImports := True\<rparr>;
          activeAssetIds = map asset_id (importedAssets props);
          s1 = fold (removeStaleImported activeAssetIds) (importedObjects s0) s0
      in if list_ex (\<lambda>k. k \<notin> set activeAssetIds) (mapKeys (importedObjects s0))
         then refreshSceneDisplay props (markPolygonCountDirty s1) else s1)"

text \<open>An invocation up to its return or its first suspension.\<close>

definition syncImportedAssets :: "Props \<Rightarrow> Viewport \<Rightarrow> Viewport \<times> SyncTask" where
  "syncImportedAssets props s =
     (if isSyncingImports s then (s, Finished)
      else loadLoop (importedAssets props) 0 (afterRemovals props s))"

fun setName :: "Object3D \<Rightarrow> string \<Rightarrow> Object3D" where
  "setName (Object3D d cs) n = Object3D (d\<lparr>od_name := n\<rparr>) cs"

text \<open>
  The suspended invocation resumed: \<open>result\<close> is the decoded model, or \<open>None\<close> when
  \<^verbatim>\<open>loadImportedModelObject\<close> rejected; \<open>arr\<close> is the array the loop iterates, as it is
  now; \<open>props\<close> are the props as they are now.
\<close>

definition resumeImport ::
  "Arith \<Rightarrow> Box3Lib \<Rightarrow> Object3D option \<Rightarrow> ImportedModelAsset \<Rightarrow> nat \<Rightarrow>
   ImportedModelAsset list \<Rightarrow> Props \<Rightarrow> Viewport \<Rightarrow> Viewport \<times> SyncTask" where
  "resumeImport ar lib result asset i arr props s =
     (let s1 = (case result of
                  None \<Rightarrow>
                    logEvent (ConsoleError (''Failed to import model '' @ [CHR 0x22] @ asset_name asset
                                            @ [CHR 0x22])) s
                | Some loaded \<Rightarrow>
                    (let model = alignObjectToGround ar lib (setName loaded (asset_name asset));
                         sa = logEvent (Created Imported (asset_id asset))
                                (s\<lparr>importedObjects :=
                                     mapSet (asset_id asset) model (importedObjects s)\<rparr>);
                         sb = refreshSceneDisplay props (markPolygonCountDirty sa)
                     in if truthy (selectedObjectId props) \<and> \<not> selectedIsPrimitive props
                           \<and> selectedObjectId props = Some (asset_id asset)
                        then
                          selectObject
                            (Some (ObjectR (case map_of (importedObjects sb) (asset_id asset) of
                                              Some m \<Rightarrow> m | None \<Rightarrow> model)))
                            (Some (asset_id asset)) False False sb
                        else sb));
          s2 = s1\<lparr>loadingImports := removeAll (asset_id asset) (loadingImports s1)\<rparr>
      in loadLoop (drop i arr) i s2)"

section \<open>The viewport controller: gizmo changes and display mode\<close>

definition emitTransformChange :: "Arith \<Rightarrow> Props \<Rightarrow> Viewport \<Rightarrow> Viewport" where
  "emitTransformChange ar props s =
     (case selectedObject s of
        None \<Rightarrow> s
      | Some obj \<Rightarrow>
          (case currentSelectedId s of
             None \<Rightarrow> s
           | Some oid \<Rightarrow>
               if oid = [] then s
               else
                 (case transformControls s of
                    None \<Rightarrow> s
                  | Some tc \<Rightarrow>
                      if isPrimitive s then
                        (let node = find (\<lambda>n. node_id n = oid) (nodes (sceneData props));
                             yOffset = (case node of
                                          Some n \<Rightarrow> getPrimitiveYOffset (primitive n)
                                        | None \<Rightarrow> 0.5)
                         in case tc_mode tc of
                              Translate \<Rightarrow>
                                logEvent (EmitUpdateNodePosition oid
                                  \<lparr>x = x (rPosition obj),
                                   y = fsub ar (y (rPosition obj)) yOffset,
                                   z = z (rPosition obj)\<rparr>) s
                            | Rotate \<Rightarrow>
                                logEvent (EmitUpdateNodeRotation oid
                                  \<lparr>x = fmul ar (x (rRotation obj)) (RAD2DEG ar),
                                   y = fmul ar (y (rRotation obj)) (RAD2DEG ar),
                                   z = fmul ar (z (rRotation obj)) (RAD2DEG ar)\<rparr>) s
                            | Scale \<Rightarrow>
                                logEvent (EmitUpdateNodeScale oid
                                  \<lparr>x = x (rScale obj), y = y (rScale obj), z = z (rScale obj)\<rparr>) s)
                      else if isLight s then
                        (case tc_mode tc of
                           Translate \<Rightarrow>
                             logEvent (EmitUpdateLightPosition oid
                               \<lparr>x = x (rPosition obj), y = y (rPosition obj),
                                z = z (rPosition obj)\<rparr>) s
                         | _ \<Rightarrow> s)
                      else
                        (case tc_mode tc of
                           Translate \<Rightarrow>
                             logEvent (EmitUpdateImportedPosition oid
                               \<lparr>x = x (rPosition obj), y = y (rPosition obj),
                                z = z (rPosition obj)\<rparr>) s
                         | Rotate \<Rightarrow>
                             logEvent (EmitUpdateImportedRotation oid
                               \<lparr>x = fmul ar (x (rRotation obj)) (RAD2DEG ar),
                                y = fmul ar (y (rRotation obj)) (RAD2DEG ar),
                                z = fmul ar (z (rRotation obj)) (RAD2DEG ar)\<rparr>) s
                         | Scale \<Rightarrow>
                             logEvent (EmitUpdateImportedScale oid
                               \<lparr>x = x (rScale obj), y = y (rScale obj), z = z (rScale obj)\<rparr>) s))))"

text \<open>The callback of \<^verbatim>\<open>watch(displayMode, ...)\<close>, and an assignment to
  \<^verbatim>\<open>displayMode\<close> (the toolbar's \<^verbatim>\<open>v-model\<close>): the watcher runs when the value
  changes.\<close>

definition watchDisplayMode :: "Props \<Rightarrow> Viewport \<Rightarrow> Viewport" where
  "watchDisplayMode props s =
     refreshSceneDisplay props
       (if displayMode s = Wireframe then s\<lparr>showPolygonEdges := False, showVertices := False\<rparr>
        else s)"

definition setDisplayMode :: "DisplayMode \<Rightarrow> Props \<Rightarrow> Viewport \<Rightarrow> Viewport" where
  "setDisplayMode m props s =
     (if displayMode s = m then s else watchDisplayMode props (s\<lparr>displayMode := m\<rparr>))"

section \<open>Reading the order of effects\<close>

text \<open>
  \<open>disposedWhileSelected sel ann evs\<close> replays the effects \<open>evs\<close> from a moment when the
  controller holds selection \<open>sel\<close> and the parent was last told \<open>ann\<close>, and tells whether
  some \<^verbatim>\<open>disposeObject3D\<close> ran on the renderable of an id that was, at that moment,
  still the controller's selection or still the selection announced to the parent.
\<close>

fun disposedWhileSelected :: "string option \<Rightarrow> string option \<Rightarrow> Event list \<Rightarrow> bool" where
  "disposedWhileSelected sel ann [] = False"
| "disposedWhileSelected sel ann (CallSelectObject v # evs) = disposedWhileSelected v ann evs"
| "disposedWhileSelected sel ann (EmitSelectObject v p l # evs) = disposedWhileSelected sel v evs"
| "disposedWhileSelected sel ann (DisposeObject3D r k # evs) =
     (sel = Some k \<or> ann = Some k \<or> disposedWhileSelected sel ann evs)"
| "disposedWhileSelected sel ann (e # evs) = disposedWhileSelected sel ann evs"

fun isLifecycle :: "Event \<Rightarrow> bool" where
  "isLifecycle (DisposeObject3D r k) = True"
| "isLifecycle (LightDispose k) = True"
| "isLifecycle (Created r k) = True"
| "isLifecycle (CreatedSceneLight k) = True"
| "isLifecycle e = False"

text \<open>The controller's selection and the selection last announced to the parent after
  the effects \<open>evs\<close>.\<close>

fun selAfter :: "string option \<Rightarrow> Event list \<Rightarrow> string option" where
  "selAfter sel [] = sel"
| "selAfter sel (CallSelectObject v # evs) = selAfter v evs"
| "selAfter sel (e # evs) = selAfter sel evs"

fun annAfter :: "string option \<Rightarrow> Event list \<Rightarrow> string option" where
  "annAfter ann [] = ann"
| "annAfter ann (EmitSelectObject v p l # evs) = annAfter v evs"
| "annAfter ann (e # evs) = annAfter ann evs"

text \<open>
  \<open>selectionTraced sel0 s\<close>: since the moment the effect log was empty and the selection
  was \<open>sel0\<close>, nothing was disposed while selected, and the log accounts for the
  selection the controller holds now, which is also the one the parent was told last.
\<close>

definition selectionTraced :: "string option \<Rightarrow> Viewport \<Rightarrow> bool" where
  "selectionTraced sel0 s =
     (\<not> disposedWhileSelected sel0 sel0 (events s)
      \<and> selAfter sel0 (events s) = currentSelectedId s
      \<and> annAfter sel0 (events s) = currentSelectedId s)"

text \<open>The registries are \<^verbatim>\<open>Map\<close>s and the in-flight set a \<^verbatim>\<open>Set\<close>: keys are
  distinct.\<close>

definition wellFormed :: "Viewport \<Rightarrow> bool" where
  "wellFormed s =
     (distinct (mapKeys (primitiveMeshes s)) \<and> distinct (mapKeys (lightObjects s))
      \<and> distinct (mapKeys (sceneLights s)) \<and> distinct (mapKeys (importedObjects s))
      \<and> distinct (loadingImports s))"

text \<open>A change of the document as the two watchers see it: the nodes slice or the lights
  slice changed, and the props now are \<open>props\<close>.\<close>

datatype Change = NodesChanged Props | LightsChanged Props

fun applyChange :: "Change \<Rightarrow> Viewport \<Rightarrow> Viewport" where
  "applyChange (NodesChanged props) s = syncPrimitiveNodes props s"
| "applyChange (LightsChanged props) s = syncLights props s"

text \<open>The state at module load, and the props of an empty scene.\<close>

definition initialViewport :: Viewport where
  "initialViewport =
     \<lparr>primitiveMeshes = [], importedObjects = [], lightObjects = [], sceneLights = [],
      loadingImports = [], sceneLightsGroup = [], vertexHelpers = [], edgeHelpers = [],
      displayMode = Solid, showPolygonEdges = False, showVertices = False,
      selectedObject = None, currentSelectedId = None, isPrimitive = False, isLight = False,
      selectionHelper = None, polygonCountDirty = True, isSyncingImports = False,
      transformControls = None, events = []\<rparr>"

definition emptyScene :: SceneEntity where
  "emptyScene = \<lparr>scene_id = ''scene_1'', scene_name = ''Untitled Scene'', createdAt = 1,
                 updatedAt = 1, nodes = [], lights = Some []\<rparr>"

definition propsOf :: "SceneEntity \<Rightarrow> ImportedModelAsset list \<Rightarrow> Props" where
  "propsOf scene assets =
     \<lparr>sceneData = scene, importedAssets = assets, selectedObjectId = None,
      selectedIsPrimitive = False, selectedIsLight = False\<rparr>"

section \<open>Scene editing functions\<close>

text \<open>Every editing function reads the clock once (\<^verbatim>\<open>Date.now()\<close>); the value read is
  the first argument \<open>now\<close>.\<close>

definition deleteNode :: "int \<Rightarrow> SceneEntity \<Rightarrow> string \<Rightarrow> SceneEntity" where
  "deleteNode now scene nodeId =
     scene\<lparr>updatedAt := now,
           nodes := filter (\<lambda>node. node_id node \<noteq> nodeId) (nodes scene)\<rparr>"

definition updateNodePosition :: "int \<Rightarrow> SceneEntity \<Rightarrow> string \<Rightarrow> Transform \<Rightarrow> SceneEntity" where
  "updateNodePosition now scene nodeId p =
     scene\<lparr>updatedAt := now,
           nodes := map (\<lambda>node. if node_id node = nodeId then node\<lparr>position := p\<rparr> else node)
                        (nodes scene)\<rparr>"

definition updateNodeScale :: "int \<Rightarrow> SceneEntity \<Rightarrow> string \<Rightarrow> Transform \<Rightarrow> SceneEntity" where
  "updateNodeScale now scene nodeId sc =
     scene\<lparr>updatedAt := now,
           nodes := map (\<lambda>node. if node_id node = nodeId then node\<lparr>scale := Some sc\<rparr> else node)
                        (nodes scene)\<rparr>"

definition updateNodeRotation :: "int \<Rightarrow> SceneEntity \<Rightarrow> string \<Rightarrow> Transform \<Rightarrow> SceneEntity" where
  "updateNodeRotation now scene nodeId r =
     scene\<lparr>updatedAt := now,
           nodes := map (\<lambda>node. if node_id node = nodeId then node\<lparr>rotation := Some r\<rparr> else node)
                        (nodes scene)\<rparr>"

text \<open>A one-box document saved at time 1, and the vector \<open>(99, 99, 99)\<close> of the tests.\<close>

definition v99 :: Transform where
  "v99 = \<lparr>x = 99, y = 99, z = 99\<rparr>"

definition boxNode :: "string \<Rightarrow> SceneNode" where
  "boxNode i = \<lparr>node_id = i, primitive = Box, position = origin,
                scale = Some \<lparr>x = 1, y = 1, z = 1\<rparr>, rotation = Some origin\<rparr>"

definition oneBoxScene :: SceneEntity where
  "oneBoxScene = \<lparr>scene_id = ''scene_1'', scene_name = ''Untitled Scene'', createdAt = 1,
                   updatedAt = 1, nodes = [boxNode ''node_1''], lights = Some []\<rparr>"

section \<open>Example states\<close>

text \<open>
  The arithmetic of the real numbers and a library that finds every object empty:
  instances on which the model can be run. A document whose node \<open>node_1\<close> is of the
  given kind, and a mounted viewport with that node selected, its mesh at visual height
  \<open>h\<close>, turned by \<open>pi\<close> about the first axis and scaled by 2, in the given gizmo mode; a
  mounted viewport with the light \<open>light_1\<close> selected.
\<close>

definition exactArith :: Arith where
  "exactArith = \<lparr>fsub = (\<lambda>a b. a - b), fmul = (\<lambda>a b. a * b), fdiv = (\<lambda>a b. a / b),
                  MATH_PI = pi\<rparr>"

definition emptyBoxes :: Box3Lib where
  "emptyBoxes = \<lparr>setFromObject = (\<lambda>object. \<lparr>box_min = origin, box_max = origin\<rparr>),
                  isEmpty = (\<lambda>box. True), getCenter = (\<lambda>box. origin)\<rparr>"

definition kindScene :: "PrimitiveType \<Rightarrow> SceneEntity" where
  "kindScene k = emptyScene\<lparr>nodes := [(boxNode ''node_1'')\<lparr>primitive := k\<rparr>]\<rparr>"

definition kindSelected :: "PrimitiveType \<Rightarrow> real \<Rightarrow> TransformMode \<Rightarrow> Viewport" where
  "kindSelected k h m =
     initialViewport
       \<lparr>selectedObject :=
          Some (MeshR ((makePrimitiveMesh ''node_1'' k)
                         \<lparr>mesh_position := \<lparr>x = 1, y = h, z = 2\<rparr>,
                          mesh_rotation := \<lparr>x = pi, y = 0, z = 0\<rparr>,
                          mesh_scale := \<lparr>x = 2, y = 2, z = 2\<rparr>\<rparr>)),
        currentSelectedId := Some ''node_1'', isPrimitive := True,
        transformControls := Some \<lparr>tc_mode = m, tc_object = None\<rparr>\<rparr>"

definition lightSelected :: "TransformMode \<Rightarrow> Viewport" where
  "lightSelected m =
     initialViewport
       \<lparr>selectedObject :=
          Some (SpriteR ((makeLightBillboard ''light_1'')
                           \<lparr>sprite_position := \<lparr>x = 0, y = 2, z = 0\<rparr>\<rparr>)),
        currentSelectedId := Some ''light_1'', isLight := True,
        transformControls := Some \<lparr>tc_mode = m, tc_object = None\<rparr>\<rparr>"

text \<open>
  A viewport showing the boxes \<open>node_1\<close> and \<open>node_2\<close>, the light \<open>light_1\<close> and the
  imported model \<open>asset_b\<close>, with the given selection; a document that has lost
  \<open>node_1\<close> and \<open>light_1\<close>; the asset \<open>asset_a\<close>, not yet loaded.
\<close>

definition populated :: "string option \<Rightarrow> Registry \<Rightarrow> Viewport" where
  "populated sel kind =
     initialViewport
       \<lparr>primitiveMeshes := [(''node_1'', makePrimitiveMesh ''node_1'' Box),
                            (''node_2'', makePrimitiveMesh ''node_2'' Box)],
        lightObjects := [(''light_1'', makeLightBillboard ''light_1'')],
        sceneLights := [(''light_1'', \<lparr>dl_position = origin, dl_target = origin,
                                        dl_castShadow = False\<rparr>)],
        sceneLightsGroup := [DirectionalLightOf ''light_1'', AmbientLight],
        importedObjects := [(''asset_b'', testImported ''b.glb'' 0xa1a8b2)],
        currentSelectedId := sel,
        selectedObject :=
          (case sel of
             None \<Rightarrow> None
           | Some i \<Rightarrow>
               Some (case kind of
                       Primitives \<Rightarrow> MeshR (makePrimitiveMesh i Box)
                     | Lights \<Rightarrow> SpriteR (makeLightBillboard i)
                     | Imported \<Rightarrow> ObjectR (testImported ''b.glb'' 0xa1a8b2))),
        isPrimitive := (sel \<noteq> None \<and> kind = Primitives),
        isLight := (sel \<noteq> None \<and> kind = Lights)\<rparr>"

definition afterDeletion :: SceneEntity where
  "afterDeletion = emptyScene\<lparr>nodes := [boxNode ''node_2''], lights := Some []\<rparr>"

definition assetA :: ImportedModelAsset where
  "assetA = \<lparr>asset_id = ''asset_a'', asset_name = ''a.glb'', asset_format = ''glb'',
             asset_url = ''blob:a''\<rparr>"

definition assetC :: ImportedModelAsset where
  "assetC = \<lparr>asset_id = ''asset_c'', asset_name = ''c.obj'', asset_format = ''obj'',
             asset_url = ''blob:c''\<rparr>"

definition twoBoxScene :: SceneEntity where
  "twoBoxScene = emptyScene\<lparr>nodes := [boxNode ''node_1'', boxNode ''node_2''],
                            lights := Some [\<lparr>light_id = ''light_1'',
                                             light_position = \<lparr>x = 0, y = 2, z = 0\<rparr>\<rparr>]\<rparr>"

definition assetB :: ImportedModelAsset where
  "assetB = \<lparr>asset_id = ''asset_b'', asset_name = ''b.glb'', asset_format = ''glb'',
             asset_url = ''blob:b''\<rparr>"

text \<open>The populated viewport after an invocation of \<^verbatim>\<open>syncImportedAssets\<close> with the
  assets \<open>asset_b\<close>, \<open>asset_a\<close> has reached its \<^verbatim>\<open>await\<close> on the decode of \<open>asset_a\<close>.\<close>

definition suspended :: Viewport where
  "suspended =
     logEvent (LoadStarted ''asset_a'')
       ((populated None Imported)\<lparr>isSyncingImports := True, loadingImports := [''asset_a'']\<rparr>)"

text \<open>The same with \<open>asset_b\<close> selected when the invocation began.\<close>

definition suspendedSelected :: Viewport where
  "suspendedSelected =
     logEvent (LoadStarted ''asset_a'')
       ((populated (Some ''asset_b'') Imported)
          \<lparr>isSyncingImports := True, loadingImports := [''asset_a'']\<rparr>)"

section \<open>Stale-reference edits\<close>

lemma filter_stale_id:
  "nodeId \<notin> node_id ` set ns \<Longrightarrow> filter (\<lambda>node. node_id node \<noteq> nodeId) ns = ns"
  by (induction ns) auto

lemma map_stale_id:
  "nodeId \<notin> node_id ` set ns \<Longrightarrow>
   map (\<lambda>node. if node_id node = nodeId then f node else node) ns = ns"
  by (induction ns) auto

text \<open>
  Claim C9 as stated fails: an edit that targets an id absent from the document still
  stamps \<^verbatim>\<open>updatedAt\<close> with the clock, so the returned document differs from its input
  as soon as the clock has moved. Here the document was saved at time 1 and the edit
  runs at time 2.
\<close>

theorem C9_stale_edit_counterexample:
  "''non-existent'' \<notin> node_id ` set (nodes oneBoxScene) \<and>
   updateNodePosition 2 oneBoxScene ''non-existent'' v99 \<noteq> oneBoxScene \<and>
   deleteNode 2 oneBoxScene ''non-existent'' \<noteq> oneBoxScene"
proof -
  have "updatedAt (updateNodePosition 2 oneBoxScene ''non-existent'' v99) \<noteq> updatedAt oneBoxScene"
    by (simp add: updateNodePosition_def oneBoxScene_def)
  moreover have "updatedAt (deleteNode 2 oneBoxScene ''non-existent'') \<noteq> updatedAt oneBoxScene"
    by (simp add: deleteNode_def oneBoxScene_def)
  moreover have "''non-existent'' \<notin> node_id ` set (nodes oneBoxScene)"
    by (simp add: oneBoxScene_def boxNode_def)
  ultimately show ?thesis by metis
qed

text \<open>
  Claim C9, amended: for every document and every id that is not the id of one of its
  nodes, \<^const>\<open>updateNodePosition\<close>, \<^const>\<open>updateNodeScale\<close>, \<^const>\<open>updateNodeRotation\<close> and
  \<^const>\<open>deleteNode\<close> return the input document with only \<^verbatim>\<open>updatedAt\<close> replaced by the
  current time: the nodes, the lights and every other field are those of the input. The
  functions are total, so no error is raised.
\<close>

theorem C9_stale_edit_only_touches_updatedAt:
  assumes "nodeId \<notin> node_id ` set (nodes scene)"
  shows "updateNodePosition now scene nodeId v = scene\<lparr>updatedAt := now\<rparr>
       \<and> updateNodeScale now scene nodeId v = scene\<lparr>updatedAt := now\<rparr>
       \<and> updateNodeRotation now scene nodeId v = scene\<lparr>updatedAt := now\<rparr>
       \<and> deleteNode now scene nodeId = scene\<lparr>updatedAt := now\<rparr>"
  using assms
  by (simp add: updateNodePosition_def updateNodeScale_def updateNodeRotation_def
      deleteNode_def filter_stale_id map_stale_id)

theorem C9_stale_edit_witness:
  "''non-existent'' \<notin> node_id ` set (nodes oneBoxScene)
   \<and> nodes (updateNodePosition 2 oneBoxScene ''non-existent'' v99) = [boxNode ''node_1'']
   \<and> nodes (updateNodeScale 2 oneBoxScene ''non-existent'' v99) = [boxNode ''node_1'']
   \<and> nodes (updateNodeRotation 2 oneBoxScene ''non-existent'' v99) = [boxNode ''node_1'']
   \<and> nodes (deleteNode 2 oneBoxScene ''non-existent'') = [boxNode ''node_1'']
   \<and> updatedAt (deleteNode 2 oneBoxScene ''non-existent'') = 2"
proof -
  have h: "''non-existent'' \<notin> node_id ` set (nodes oneBoxScene)"
    by (simp add: oneBoxScene_def boxNode_def)
  show ?thesis
    using h C9_stale_edit_only_touches_updatedAt [OF h, of 2 v99]
    by (simp add: oneBoxScene_def)
qed


section \<open>Vectors\<close>

lemma Transform_eq_iff:
  "(a::Transform) = b \<longleftrightarrow> x a = x b \<and> y a = y b \<and> z a = z b"
  by (cases a, cases b) auto

section \<open>The ambient fill light\<close>

lemma fold_remove1_skip:
  "\<not> P c \<Longrightarrow> \<forall>a\<in>set as. P a \<Longrightarrow> fold remove1 as (c # cs) = c # fold remove1 as cs"
  by (induction as arbitrary: cs) auto

lemma fold_remove1_filter:
  "fold remove1 (filter P cs) cs = filter (\<lambda>c. \<not> P c) cs"
proof (induction cs)
  case Nil
  then show ?case by simp
next
  case (Cons c cs)
  show ?case
  proof (cases "P c")
    case True
    then show ?thesis using Cons by simp
  next
    case False
    then show ?thesis using Cons fold_remove1_skip [of P c "filter P cs" cs] by simp
  qed
qed

lemma relightGroup_True:
  assumes "ambientCount g \<le> 1"
  shows "ambientCount (relightGroup True g) = 1"
proof (cases "list_ex isAmbientLight g")
  case True
  then have "filter isAmbientLight g \<noteq> []"
    by (simp add: list_ex_iff filter_empty_conv)
  then have "ambientCount g \<noteq> 0"
    by (simp add: ambientCount_def)
  with assms True show ?thesis
    by (simp add: relightGroup_def)
next
  case False
  then have "filter isAmbientLight g = []"
    by (simp add: list_ex_iff filter_empty_conv)
  with False show ?thesis
    by (simp add: relightGroup_def ambientCount_def)
qed

lemma relightGroup_False: "ambientCount (relightGroup False g) = 0"
  by (simp add: relightGroup_def ambientCount_def fold_remove1_filter)

lemma applyMaterialsForLightingRun_ambient:
  "ambientCount g \<le> 1 \<Longrightarrow> flags \<noteq> [] \<Longrightarrow>
   ambientCount (snd (snd (applyMaterialsForLightingRun flags (pm, io, g))))
     = (if last flags then 1 else 0)"
proof (induction flags arbitrary: pm io g)
  case Nil
  then show ?case by simp
next
  case (Cons h hs)
  have le: "ambientCount (relightGroup h g) \<le> 1"
    using Cons.prems(1) by (cases h) (simp_all add: relightGroup_True relightGroup_False)
  show ?case
  proof (cases "hs = []")
    case True
    then show ?thesis
      using Cons.prems(1)
      by (cases h)
         (simp_all add: applyMaterialsForLightingRun_def applyMaterialsForLighting_def
            relightGroup_True relightGroup_False)
  next
    case False
    then show ?thesis
      using Cons.IH [OF le False]
      by (simp add: applyMaterialsForLightingRun_def applyMaterialsForLighting_def)
  qed
qed

text \<open>
  Claim C7 as stated fails for a light container that already holds two ambient
  lights: a call with \<^verbatim>\<open>hasLights = true\<close> only tests whether some ambient light is
  present, finds one, and leaves both in place.
\<close>

theorem C7_two_ambient_counterexample:
  "ambientCount (snd (snd (applyMaterialsForLighting True [] [] [AmbientLight, AmbientLight]))) = 2"
  by (simp add: applyMaterialsForLighting_def relightGroup_def ambientCount_def)

text \<open>
  Claim C7, amended: for every light container that holds at most one ambient fill
  light, a call of \<^const>\<open>applyMaterialsForLighting\<close> with \<^verbatim>\<open>hasLights = true\<close> leaves
  exactly one, and so does every non-empty run of calls that ends with
  \<^verbatim>\<open>hasLights = true\<close>; for every light container whatever, a call with
  \<^verbatim>\<open>hasLights = false\<close> leaves none, and every non-empty run of calls from a container
  with at most one ambient light that ends with \<^verbatim>\<open>hasLights = false\<close> leaves none.
\<close>

theorem C7_ambient_light_once:
  "(ambientCount g \<le> 1 \<longrightarrow>
      ambientCount (snd (snd (applyMaterialsForLighting True pm io g))) = 1)
   \<and> ambientCount (snd (snd (applyMaterialsForLighting False pm io g))) = 0
   \<and> (ambientCount g \<le> 1 \<and> flags \<noteq> [] \<longrightarrow>
        ambientCount (snd (snd (applyMaterialsForLightingRun flags (pm, io, g))))
          = (if last flags then 1 else 0))"
  by (simp add: applyMaterialsForLighting_def relightGroup_True relightGroup_False
      applyMaterialsForLightingRun_ambient)

theorem C7_ambient_light_witness:
  "ambientCount [DirectionalLightOf ''light_1''] \<le> 1
   \<and> snd (snd (applyMaterialsForLighting True [] [] [DirectionalLightOf ''light_1'']))
       = [DirectionalLightOf ''light_1'', AmbientLight]
   \<and> ambientCount (snd (snd (applyMaterialsForLightingRun [True, True, True]
                                ([], [], [DirectionalLightOf ''light_1''])))) = 1
   \<and> ambientCount (snd (snd (applyMaterialsForLightingRun [True, False]
                                ([], [], [DirectionalLightOf ''light_1''])))) = 0"
proof -
  have h: "ambientCount [DirectionalLightOf ''light_1''] \<le> 1"
    by (simp add: ambientCount_def)
  have r: "snd (snd (applyMaterialsForLighting True [] [] [DirectionalLightOf ''light_1'']))
             = [DirectionalLightOf ''light_1'', AmbientLight]"
    by (simp add: applyMaterialsForLighting_def relightGroup_def)
  from C7_ambient_light_once [of "[DirectionalLightOf ''light_1'']" "[]" "[]" "[True, True, True]"]
       C7_ambient_light_once [of "[DirectionalLightOf ''light_1'']" "[]" "[]" "[True, False]"]
       h r
  show ?thesis by simp
qed

section \<open>Display mode round trip\<close>

lemma traverse_traverseMap: "traverse (traverseMap f obj) = map f (traverse obj)"
  by (induction obj) (simp add: map_concat comp_def cong: map_cong)

lemma materialsOf_applyMode:
  "materialsOf (applyModeToMeshMaterial w oc mm)
     = map (\<lambda>mat. applyModeToMaterial mat w oc) (materialsOf mm)"
  by (cases mm) simp_all

lemma childMaterials_applyMode:
  "childMaterials (applyModeToChild w child)
     = map (\<lambda>mat. applyModeToMaterial mat w None) (childMaterials child)"
  by (simp add: childMaterials_def applyModeToChild_def materialsOf_applyMode
      split: option.splits prod.splits)

lemma concat_map_through:
  "(\<And>v. h (f v) = map g (h v)) \<Longrightarrow> concat (map h (map f xs)) = map g (concat (map h xs))"
  by (induction xs) simp_all

lemma objectMaterials_applyMode:
  "concat (map childMaterials (traverse (traverseMap (applyModeToChild w) obj))) =
   map (\<lambda>mat. applyModeToMaterial mat w None) (concat (map childMaterials (traverse obj)))"
  unfolding traverse_traverseMap by (rule concat_map_through) (rule childMaterials_applyMode)

lemma primitiveMaterials_applyDisplayMode:
  "primitiveMaterials (fst (applyDisplayMode mode pm io)) =
   map (\<lambda>mat. applyModeToMaterial mat (mode = Wireframe) (Some PRIMITIVE_COLOR))
       (primitiveMaterials pm)"
  by (induction pm)
     (simp_all add: primitiveMaterials_def applyDisplayMode_def Let_def materialsOf_applyMode
        split_beta)

lemma importedMaterials_applyDisplayMode:
  "importedMaterials (snd (applyDisplayMode mode pm io)) =
   map (\<lambda>mat. applyModeToMaterial mat (mode = Wireframe) None) (importedMaterials io)"
  by (induction io)
     (simp_all add: importedMaterials_def applyDisplayMode_def Let_def objectMaterials_applyMode
        split_beta)

lemma toggle_material:
  "opacity (applyModeToMaterial (applyModeToMaterial m True oc) False oc') = 1"
  "\<not> transparent (applyModeToMaterial (applyModeToMaterial m True oc) False oc')"
  "color (applyModeToMaterial (applyModeToMaterial m True oc) False oc') =
     (case color m of None \<Rightarrow> None
      | Some c \<Rightarrow> Some (case oc' of Some k \<Rightarrow> k | None \<Rightarrow> PRIMITIVE_COLOR))"
  by (simp_all add: applyModeToMaterial_def ensurePolygonOffset_def Let_def split: option.splits)

lemma zip_map_same: "(a, b) \<in> set (zip xs (map f xs)) \<Longrightarrow> b = f a"
  by (induction xs) auto

text \<open>
  Claim C4 as stated fails: solid mode does not put back the colour a material had, it
  writes the primitive colour \<open>0x9099a4\<close>. The imported mesh of the display tests has
  colour \<open>0xa1a8b2\<close> before the toggle and \<open>0x9099a4\<close> after it.
\<close>

theorem C4_color_counterexample:
  "map color (importedMaterials [(''imported-0'', testImported ''imported-0'' 0xa1a8b2)])
     = [Some 0xa1a8b2]
   \<and> map color (importedMaterials (snd (applyDisplayMode Solid
         (fst (applyDisplayMode Wireframe [] [(''imported-0'', testImported ''imported-0'' 0xa1a8b2)]))
         (snd (applyDisplayMode Wireframe [] [(''imported-0'', testImported ''imported-0'' 0xa1a8b2)])))))
     = [Some 0x9099a4]"
  by (simp add: importedMaterials_def applyDisplayMode_def testImported_def childMaterials_def
      applyModeToChild_def applyModeToMaterial_def ensurePolygonOffset_def unlitMat_def
      PRIMITIVE_COLOR_def Let_def)

text \<open>
  Claim C4, amended: for every material of every mesh in either registry, applying
  display mode wireframe and then display mode solid leaves the material with opacity
  exactly 1, transparency off, and the colour \<^const>\<open>PRIMITIVE_COLOR\<close> if the material has
  a colour at all; the colour it had before the toggle is restored only when it was
  \<^const>\<open>PRIMITIVE_COLOR\<close>. The two calls keep the number and order of the materials, so
  \<open>zip\<close> pairs each material with itself after the round trip.
\<close>

theorem C4_wireframe_then_solid:
  assumes w: "applyDisplayMode Wireframe pm io = (pm1, io1)"
      and s: "applyDisplayMode Solid pm1 io1 = (pm2, io2)"
  shows "length (primitiveMaterials pm2) = length (primitiveMaterials pm)
       \<and> length (importedMaterials io2) = length (importedMaterials io)
       \<and> (\<forall>(before, after) \<in> set (zip (primitiveMaterials pm) (primitiveMaterials pm2))
                                \<union> set (zip (importedMaterials io) (importedMaterials io2)).
            opacity after = 1 \<and> \<not> transparent after
            \<and> color after = (case color before of None \<Rightarrow> None
                                                   | Some c \<Rightarrow> Some PRIMITIVE_COLOR))"
proof -
  let ?tp = "\<lambda>m. applyModeToMaterial (applyModeToMaterial m True (Some PRIMITIVE_COLOR)) False
                   (Some PRIMITIVE_COLOR)"
  let ?ti = "\<lambda>m. applyModeToMaterial (applyModeToMaterial m True None) False None"
  have p2: "primitiveMaterials pm2 = map ?tp (primitiveMaterials pm)"
    using primitiveMaterials_applyDisplayMode [of Solid pm1 io1]
          primitiveMaterials_applyDisplayMode [of Wireframe pm io] w s
    by (simp add: comp_def)
  have i2: "importedMaterials io2 = map ?ti (importedMaterials io)"
    using importedMaterials_applyDisplayMode [of Solid pm1 io1]
          importedMaterials_applyDisplayMode [of Wireframe pm io] w s
    by (simp add: comp_def)
  have "\<And>a b. (a, b) \<in> set (zip (primitiveMaterials pm) (primitiveMaterials pm2)) \<Longrightarrow>
      opacity b = 1 \<and> \<not> transparent b
      \<and> color b = (case color a of None \<Rightarrow> None | Some c \<Rightarrow> Some PRIMITIVE_COLOR)"
    unfolding p2 by (drule zip_map_same) (simp add: toggle_material split: option.splits)
  moreover have "\<And>a b. (a, b) \<in> set (zip (importedMaterials io) (importedMaterials io2)) \<Longrightarrow>
      opacity b = 1 \<and> \<not> transparent b
      \<and> color b = (case color a of None \<Rightarrow> None | Some c \<Rightarrow> Some PRIMITIVE_COLOR)"
    unfolding i2 by (drule zip_map_same) (simp add: toggle_material split: option.splits)
  ultimately show ?thesis using p2 i2 by auto
qed

lemma singleton_zip:
  "length ys = length [a] \<Longrightarrow> \<exists>b. ys = [b] \<and> (a, b) \<in> set (zip [a] ys)"
  by (cases ys) auto

theorem C4_wireframe_then_solid_witness:
  "primitiveMaterials testMeshMap = [unlitMat 0x9099a4]
   \<and> importedMaterials testImportedMap = [unlitMat 0xa1a8b2]
   \<and> map opacity (primitiveMaterials (fst (applyDisplayMode Solid
          (fst (applyDisplayMode Wireframe testMeshMap testImportedMap))
          (snd (applyDisplayMode Wireframe testMeshMap testImportedMap))))) = [1]
   \<and> map transparent (importedMaterials (snd (applyDisplayMode Solid
          (fst (applyDisplayMode Wireframe testMeshMap testImportedMap))
          (snd (applyDisplayMode Wireframe testMeshMap testImportedMap))))) = [False]
   \<and> map color (importedMaterials (snd (applyDisplayMode Solid
          (fst (applyDisplayMode Wireframe testMeshMap testImportedMap))
          (snd (applyDisplayMode Wireframe testMeshMap testImportedMap)))))
       = [Some PRIMITIVE_COLOR]"
proof -
  define pm1 where "pm1 = fst (applyDisplayMode Wireframe testMeshMap testImportedMap)"
  define io1 where "io1 = snd (applyDisplayMode Wireframe testMeshMap testImportedMap)"
  define pm2 where "pm2 = fst (applyDisplayMode Solid pm1 io1)"
  define io2 where "io2 = snd (applyDisplayMode Solid pm1 io1)"
  have w: "applyDisplayMode Wireframe testMeshMap testImportedMap = (pm1, io1)"
    by (simp add: pm1_def io1_def)
  have s: "applyDisplayMode Solid pm1 io1 = (pm2, io2)"
    by (simp add: pm2_def io2_def)
  have p: "primitiveMaterials testMeshMap = [unlitMat 0x9099a4]"
    by (simp add: primitiveMaterials_def testMeshMap_def testMesh_def)
  have i: "importedMaterials testImportedMap = [unlitMat 0xa1a8b2]"
    by (simp add: importedMaterials_def testImportedMap_def testImported_def childMaterials_def)
  note t = C4_wireframe_then_solid [OF w s]
  from t p obtain b where b: "primitiveMaterials pm2 = [b]"
      "(unlitMat 0x9099a4, b) \<in> set (zip (primitiveMaterials testMeshMap) (primitiveMaterials pm2))"
    using singleton_zip [of "primitiveMaterials pm2" "unlitMat 0x9099a4"] by auto
  from t i obtain c where c: "importedMaterials io2 = [c]"
      "(unlitMat 0xa1a8b2, c) \<in> set (zip (importedMaterials testImportedMap) (importedMaterials io2))"
    using singleton_zip [of "importedMaterials io2" "unlitMat 0xa1a8b2"] by auto
  from t b(2) have "opacity b = 1" by blast
  moreover from t c(2) have "\<not> transparent c"
      "color c = (case color (unlitMat 0xa1a8b2) of None \<Rightarrow> None | Some k \<Rightarrow> Some PRIMITIVE_COLOR)"
    by blast+
  ultimately show ?thesis
    using p i b(1) c(1)
    unfolding pm2_def io2_def pm1_def io1_def
    by (simp add: unlitMat_def)
qed

section \<open>Polygon-edge overlay\<close>

lemma addEdgeLinesForMesh_Nil:
  "addEdgeLinesForMesh n g acc c w t = [] \<longleftrightarrow> acc = [] \<and> g \<noteq> BufferGeometry True"
  by (cases g) (simp_all add: addEdgeLinesForMesh_def)

lemma addEdgeLinesForChild_Nil:
  "addEdgeLinesForChild c child acc = [] \<longleftrightarrow> acc = [] \<and> \<not> isEdgeable child"
  by (cases "od_mesh child")
     (simp_all add: addEdgeLinesForChild_def isEdgeable_def addEdgeLinesForMesh_Nil split_beta)

lemma fold_children_Nil:
  "fold (addEdgeLinesForChild c) ds acc = [] \<longleftrightarrow> acc = [] \<and> \<not> list_ex isEdgeable ds"
  by (induction ds arbitrary: acc) (simp_all add: addEdgeLinesForChild_Nil conj_ac)

lemma addEdgeLinesForObject_Nil:
  "addEdgeLinesForObject obj acc c = [] \<longleftrightarrow> acc = [] \<and> \<not> hasEdgeableMesh obj"
  unfolding addEdgeLinesForObject_def hasEdgeableMesh_def by (rule fold_children_Nil)

lemma fold_primitives_Nil:
  "fold (\<lambda>(k, mesh) acc.
           addEdgeLinesForMesh (mesh_name mesh) (mesh_geometry mesh) acc c False t) pm acc = []
   \<longleftrightarrow> acc = [] \<and> \<not> list_ex (\<lambda>(k, mesh). mesh_geometry mesh = BufferGeometry True) pm"
  by (induction pm arbitrary: acc) (simp_all add: addEdgeLinesForMesh_Nil split_beta conj_ac)

lemma fold_imported_Nil:
  "fold (\<lambda>(k, object) acc. addEdgeLinesForObject object acc c) io acc = []
   \<longleftrightarrow> acc = [] \<and> \<not> list_ex (\<lambda>(k, obj). hasEdgeableMesh obj) io"
  by (induction io arbitrary: acc) (simp_all add: addEdgeLinesForObject_Nil split_beta conj_ac)

lemma showAll_Nil:
  "fold (\<lambda>(k, object) acc. addEdgeLinesForObject object acc c) io
     (fold (\<lambda>(k, mesh) acc.
              addEdgeLinesForMesh (mesh_name mesh) (mesh_geometry mesh) acc c False t) pm [])
   = [] \<longleftrightarrow> \<not> registeredMesh pm io"
  by (simp add: fold_imported_Nil fold_primitives_Nil registeredMesh_def)

text \<open>
  Claim C5 as stated fails in solid mode with the toggle on: when the selection names
  an object that is not in the registry of its kind (here an imported asset that never
  loaded, while one primitive mesh is registered), the overlay is scoped to that object
  and the edge-helper group stays empty.
\<close>

theorem C5_stale_selection_counterexample:
  "registeredMesh testMeshMap []
   \<and> updatePolygonEdgesDisplay Solid True (Some ''imported-9'') False False testMeshMap [] [] = []"
  by (simp add: registeredMesh_def testMeshMap_def testMesh_def updatePolygonEdgesDisplay_def
      truthy_def)

text \<open>
  Claim C5, amended: for every registry state with at least one registered mesh whose
  geometry yields edge lines, and every selection state, after
  \<^const>\<open>updatePolygonEdgesDisplay\<close>: in solid mode with the toggle off the edge-helper group
  has no children; in wireframe mode it has children whatever the toggle and the
  selection; in solid mode with the toggle on it has children exactly when nothing is
  selected, or a light is selected, or the selected id is registered in the registry of
  its kind with a mesh that yields edge lines.
\<close>

theorem C5_polygon_edges_children:
  assumes "registeredMesh pm io"
  shows "updatePolygonEdgesDisplay Solid False sel selPrim selLight pm io old = []
       \<and> updatePolygonEdgesDisplay Wireframe toggle sel selPrim selLight pm io old \<noteq> []
       \<and> (updatePolygonEdgesDisplay Solid True sel selPrim selLight pm io old \<noteq> []
            \<longleftrightarrow> \<not> truthy sel \<or> selLight \<or> selectedHasEdges sel selPrim pm io)"
proof -
  have a: "updatePolygonEdgesDisplay Solid False sel selPrim selLight pm io old = []"
    by (simp add: updatePolygonEdgesDisplay_def)
  have b: "updatePolygonEdgesDisplay Wireframe toggle sel selPrim selLight pm io old \<noteq> []"
    using assms by (simp add: updatePolygonEdgesDisplay_def showAll_Nil)
  have c: "updatePolygonEdgesDisplay Solid True sel selPrim selLight pm io old \<noteq> []
            \<longleftrightarrow> \<not> truthy sel \<or> selLight \<or> selectedHasEdges sel selPrim pm io"
  proof (cases "truthy sel \<and> \<not> selLight")
    case False
    then show ?thesis using assms
      by (simp add: updatePolygonEdgesDisplay_def showAll_Nil)
  next
    case True
    then show ?thesis
      by (simp add: updatePolygonEdgesDisplay_def selectedHasEdges_def
          addEdgeLinesForMesh_Nil addEdgeLinesForObject_Nil split: option.splits)
  qed
  from a b c show ?thesis by blast
qed

theorem C5_polygon_edges_witness:
  "registeredMesh testMeshMap testImportedMap
   \<and> updatePolygonEdgesDisplay Solid False (Some ''mesh-0'') True False
        testMeshMap testImportedMap [] = []
   \<and> length (updatePolygonEdgesDisplay Wireframe False (Some ''mesh-0'') True False
        testMeshMap testImportedMap []) = 2
   \<and> length (updatePolygonEdgesDisplay Solid True (Some ''mesh-0'') True False
        testMeshMap testImportedMap []) = 1
   \<and> selectedHasEdges (Some ''mesh-0'') True testMeshMap testImportedMap"
proof -
  have h: "registeredMesh testMeshMap testImportedMap"
    by (simp add: registeredMesh_def testMeshMap_def testMesh_def)
  have w: "length (updatePolygonEdgesDisplay Wireframe False (Some ''mesh-0'') True False
        testMeshMap testImportedMap []) = 2"
    by (simp add: testMeshMap_def testImportedMap_def testMesh_def testImported_def
        updatePolygonEdgesDisplay_def truthy_def addEdgeLinesForMesh_def
        addEdgeLinesForObject_def addEdgeLinesForChild_def)
  have s: "length (updatePolygonEdgesDisplay Solid True (Some ''mesh-0'') True False
        testMeshMap testImportedMap []) = 1"
    by (simp add: testMeshMap_def testMesh_def updatePolygonEdgesDisplay_def truthy_def
        addEdgeLinesForMesh_def)
  have n: "updatePolygonEdgesDisplay Solid True (Some ''mesh-0'') True False
        testMeshMap testImportedMap [] \<noteq> []"
    using s by auto
  from C5_polygon_edges_children [OF h, of "Some ''mesh-0''" True False "[]" False] h w s n
  show ?thesis by (simp add: truthy_def)
qed

section \<open>Wireframe resets the overlay toggles\<close>

lemma refreshSceneDisplay_toggles:
  "showPolygonEdges (refreshSceneDisplay props s) = showPolygonEdges s"
  "showVertices (refreshSceneDisplay props s) = showVertices s"
  "displayMode (refreshSceneDisplay props s) = displayMode s"
  by (simp_all add: refreshSceneDisplay_def applyLightingAndMode_def Let_def split: prod.splits)

text \<open>
  Claim C10: whenever the display mode changes to wireframe, the controller sets
  \<^verbatim>\<open>showPolygonEdges\<close> and \<^verbatim>\<open>showVertices\<close> to false, and after the change back to
  solid both are still false, whatever they were before.
\<close>

theorem C10_wireframe_resets_toggles:
  assumes "displayMode s = Solid"
  shows "displayMode (setDisplayMode Wireframe props s) = Wireframe
       \<and> \<not> showPolygonEdges (setDisplayMode Wireframe props s)
       \<and> \<not> showVertices (setDisplayMode Wireframe props s)
       \<and> displayMode (setDisplayMode Solid props' (setDisplayMode Wireframe props s)) = Solid
       \<and> \<not> showPolygonEdges (setDisplayMode Solid props' (setDisplayMode Wireframe props s))
       \<and> \<not> showVertices (setDisplayMode Solid props' (setDisplayMode Wireframe props s))"
  using assms
  by (simp add: setDisplayMode_def watchDisplayMode_def refreshSceneDisplay_toggles)

theorem C10_wireframe_resets_toggles_witness:
  "displayMode (initialViewport\<lparr>showPolygonEdges := True, showVertices := True\<rparr>) = Solid
   \<and> showPolygonEdges (initialViewport\<lparr>showPolygonEdges := True, showVertices := True\<rparr>)
   \<and> \<not> showPolygonEdges (setDisplayMode Solid (propsOf emptyScene [])
          (setDisplayMode Wireframe (propsOf emptyScene [])
             (initialViewport\<lparr>showPolygonEdges := True, showVertices := True\<rparr>)))
   \<and> \<not> showVertices (setDisplayMode Solid (propsOf emptyScene [])
          (setDisplayMode Wireframe (propsOf emptyScene [])
             (initialViewport\<lparr>showPolygonEdges := True, showVertices := True\<rparr>)))"
proof -
  have h: "displayMode (initialViewport\<lparr>showPolygonEdges := True, showVertices := True\<rparr>) = Solid"
    by (simp add: initialViewport_def)
  from C10_wireframe_resets_toggles [OF h, of "propsOf emptyScene []" "propsOf emptyScene []"] h
  show ?thesis by simp
qed

section \<open>What a gizmo change emits\<close>

text \<open>
  Claim C6: when a gizmo change is emitted (something is selected under a non-empty id
  and the transform controls exist), then for a selected primitive whose node is in the
  document, translate mode emits the renderable's position with the ground offset of the
  node's primitive kind subtracted from the second component (0.5 for a box, sphere,
  cylinder or cone, 0.15 for a torus, 0 for a plane) and the other two as they are,
  rotate mode emits each component of the rotation multiplied by the quotient of 180 and
  \<^verbatim>\<open>Math.PI\<close>, and scale mode emits the scale as it is; for a selected light, translate mode
  emits the position as it is and rotate and scale mode emit nothing. Subtraction,
  multiplication and division are those of the engine, whatever they round to.
\<close>

theorem C6_mode_specific_emission:
  assumes sel: "selectedObject s = Some obj"
      and cur: "currentSelectedId s = Some oid" "oid \<noteq> []"
      and tc: "transformControls s = Some tc"
  shows "(isPrimitive s \<and> find (\<lambda>n. node_id n = oid) (nodes (sceneData props)) = Some node \<longrightarrow>
            events (emitTransformChange ar props (s\<lparr>events := []\<rparr>)) =
              (case tc_mode tc of
                 Translate \<Rightarrow> [EmitUpdateNodePosition oid
                     \<lparr>x = x (rPosition obj),
                      y = fsub ar (y (rPosition obj))
                            (if primitive node \<in> {Box, Sphere, Cylinder, Cone} then 0.5
                             else if primitive node = Torus then 0.15
                             else 0),
                      z = z (rPosition obj)\<rparr>]
               | Rotate \<Rightarrow> [EmitUpdateNodeRotation oid
                     \<lparr>x = fmul ar (x (rRotation obj)) (fdiv ar 180 (MATH_PI ar)),
                      y = fmul ar (y (rRotation obj)) (fdiv ar 180 (MATH_PI ar)),
                      z = fmul ar (z (rRotation obj)) (fdiv ar 180 (MATH_PI ar))\<rparr>]
               | Scale \<Rightarrow> [EmitUpdateNodeScale oid (rScale obj)]))
       \<and> (\<not> isPrimitive s \<and> isLight s \<longrightarrow>
            events (emitTransformChange ar props (s\<lparr>events := []\<rparr>)) =
              (case tc_mode tc of
                 Translate \<Rightarrow> [EmitUpdateLightPosition oid (rPosition obj)]
               | Rotate \<Rightarrow> []
               | Scale \<Rightarrow> []))"
proof -
  have off: "getPrimitiveYOffset k =
               (if k \<in> {Box, Sphere, Cylinder, Cone} then 0.5 else if k = Torus then 0.15 else 0)"
    for k
    by (cases k) (simp_all add: getPrimitiveYOffset_def)
  show ?thesis
    using assms
    by (auto simp: emitTransformChange_def logEvent_def RAD2DEG_def Let_def Transform_eq_iff off
        split: TransformMode.splits)
qed

lemma kind_facts:
  "selectedObject (kindSelected k h m) = Some (MeshR ((makePrimitiveMesh ''node_1'' k)
                         \<lparr>mesh_position := \<lparr>x = 1, y = h, z = 2\<rparr>,
                          mesh_rotation := \<lparr>x = pi, y = 0, z = 0\<rparr>,
                          mesh_scale := \<lparr>x = 2, y = 2, z = 2\<rparr>\<rparr>))"
  "currentSelectedId (kindSelected k h m) = Some ''node_1''"
  "transformControls (kindSelected k h m) = Some \<lparr>tc_mode = m, tc_object = None\<rparr>"
  "isPrimitive (kindSelected k h m)"
  "(kindSelected k h m)\<lparr>events := []\<rparr> = kindSelected k h m"
  by (simp_all add: kindSelected_def initialViewport_def)

lemma light_facts:
  "selectedObject (lightSelected m) = Some (SpriteR ((makeLightBillboard ''light_1'')
                           \<lparr>sprite_position := \<lparr>x = 0, y = 2, z = 0\<rparr>\<rparr>))"
  "currentSelectedId (lightSelected m) = Some ''light_1''"
  "transformControls (lightSelected m) = Some \<lparr>tc_mode = m, tc_object = None\<rparr>"
  "\<not> isPrimitive (lightSelected m)" "isLight (lightSelected m)"
  "(lightSelected m)\<lparr>events := []\<rparr> = lightSelected m"
  by (simp_all add: lightSelected_def initialViewport_def)

lemma kind_node:
  "find (\<lambda>n. node_id n = ''node_1'') (nodes (sceneData (propsOf (kindScene k) [])))
     = Some ((boxNode ''node_1'')\<lparr>primitive := k\<rparr>)"
  by (simp add: propsOf_def kindScene_def emptyScene_def boxNode_def)

lemma exactArith_simps:
  "fsub exactArith a b = a - b" "fmul exactArith a b = a * b" "fdiv exactArith a b = a / b"
  "MATH_PI exactArith = pi"
  by (simp_all add: exactArith_def)

theorem C6_mode_specific_emission_witness:
  "events (emitTransformChange exactArith (propsOf (kindScene Box) [])
             (kindSelected Box 1.5 Translate))
     = [EmitUpdateNodePosition ''node_1'' \<lparr>x = 1, y = 1, z = 2\<rparr>]
   \<and> events (emitTransformChange exactArith (propsOf (kindScene Torus) [])
             (kindSelected Torus 0.15 Translate))
     = [EmitUpdateNodePosition ''node_1'' \<lparr>x = 1, y = 0, z = 2\<rparr>]
   \<and> events (emitTransformChange exactArith (propsOf (kindScene Plane) [])
             (kindSelected Plane 0.25 Translate))
     = [EmitUpdateNodePosition ''node_1'' \<lparr>x = 1, y = 0.25, z = 2\<rparr>]
   \<and> events (emitTransformChange exactArith (propsOf (kindScene Box) [])
             (kindSelected Box 1.5 Rotate))
     = [EmitUpdateNodeRotation ''node_1'' \<lparr>x = 180, y = 0, z = 0\<rparr>]
   \<and> events (emitTransformChange exactArith (propsOf (kindScene Box) [])
             (kindSelected Box 1.5 Scale))
     = [EmitUpdateNodeScale ''node_1'' \<lparr>x = 2, y = 2, z = 2\<rparr>]
   \<and> events (emitTransformChange exactArith (propsOf (kindScene Box) [])
             (lightSelected Translate))
     = [EmitUpdateLightPosition ''light_1'' \<lparr>x = 0, y = 2, z = 0\<rparr>]
   \<and> events (emitTransformChange exactArith (propsOf (kindScene Box) [])
             (lightSelected Rotate)) = []
   \<and> events (emitTransformChange exactArith (propsOf (kindScene Box) [])
             (lightSelected Scale)) = []"
proof -
  have ne: "''node_1'' \<noteq> []" "''light_1'' \<noteq> []" by simp_all
  note p = C6_mode_specific_emission [OF kind_facts(1) kind_facts(2) ne(1) kind_facts(3),
      of _ _ _ "propsOf (kindScene k) []" "(boxNode ''node_1'')\<lparr>primitive := k\<rparr>" exactArith
      for k]
  note l = C6_mode_specific_emission [OF light_facts(1) light_facts(2) ne(2) light_facts(3),
      of _ "propsOf (kindScene Box) []" "boxNode ''node_1''" exactArith]
  from p [of Box "1.5" Translate Box] p [of Torus "0.15" Translate Torus]
    p [of Plane "0.25" Translate Plane] p [of Box "1.5" Rotate Box] p [of Box "1.5" Scale Box]
    l [of Translate] l [of Rotate] l [of Scale]
  show ?thesis
    by (simp add: kind_facts light_facts kind_node makePrimitiveMesh_def makeLightBillboard_def
        boxNode_def exactArith_simps)
qed

section \<open>Registries as association lists\<close>

lemma map_of_None_keys: "map_of ps k = None \<longleftrightarrow> k \<notin> set (mapKeys ps)"
  by (simp add: mapKeys_def map_of_eq_None_iff)

lemma mapKeys_mapSet:
  "mapKeys (mapSet k v ps) = setAdd k (mapKeys ps)"
  by (induction ps) (auto simp: mapKeys_def setAdd_def)

lemma mapKeys_mapDelete: "mapKeys (mapDelete k ps) = filter (\<lambda>j. j \<noteq> k) (mapKeys ps)"
  by (induction ps) (auto simp: mapKeys_def mapDelete_def)

lemma mapKeys_map_value:
  "mapKeys (map (\<lambda>(k, v). if c k then (k, f k v) else (k, v)) ps) = mapKeys ps"
  by (induction ps) (auto simp: mapKeys_def)

lemma mapKeys_map_snd: "mapKeys (map (\<lambda>(k, v). (k, f k v)) ps) = mapKeys ps"
  by (induction ps) (auto simp: mapKeys_def)

lemma set_setAdd: "set (setAdd k ks) = insert k (set ks)"
  by (auto simp: setAdd_def)

lemma distinct_setAdd: "distinct (setAdd k ks) = distinct ks"
  by (auto simp: setAdd_def)

section \<open>Fields that the helper functions leave alone\<close>

lemma selectObject_fields:
  "primitiveMeshes (selectObject ob i p l s) = primitiveMeshes s"
  "importedObjects (selectObject ob i p l s) = importedObjects s"
  "lightObjects (selectObject ob i p l s) = lightObjects s"
  "sceneLights (selectObject ob i p l s) = sceneLights s"
  "loadingImports (selectObject ob i p l s) = loadingImports s"
  "isSyncingImports (selectObject ob i p l s) = isSyncingImports s"
  "events (selectObject ob i p l s) = events s @ [CallSelectObject i]"
  "currentSelectedId (selectObject ob i p l s) = i"
  "selectedObject (selectObject ob i p l s) = ob"
  by (simp_all add: selectObject_def logEvent_def updateSelectionHelper_def Let_def
      split: option.splits)

lemma applyMaterialsForLighting_keys:
  "mapKeys (fst (applyMaterialsForLighting h pm io g)) = mapKeys pm"
  "mapKeys (fst (snd (applyMaterialsForLighting h pm io g))) = mapKeys io"
  by (simp_all add: applyMaterialsForLighting_def mapKeys_map_snd)

lemma applyDisplayMode_keys:
  "mapKeys (fst (applyDisplayMode m pm io)) = mapKeys pm"
  "mapKeys (snd (applyDisplayMode m pm io)) = mapKeys io"
  by (simp_all add: applyDisplayMode_def Let_def mapKeys_map_snd)

lemma applyLightingAndMode_keys:
  "mapKeys (primitiveMeshes (applyLightingAndMode lit s)) = mapKeys (primitiveMeshes s)"
  "mapKeys (importedObjects (applyLightingAndMode lit s)) = mapKeys (importedObjects s)"
proof -
  obtain pm1 io1 g1 where a: "applyMaterialsForLighting lit (primitiveMeshes s)
      (importedObjects s) (sceneLightsGroup s) = (pm1, io1, g1)"
    by (metis prod_cases3)
  obtain pm2 io2 where b: "applyDisplayMode (displayMode s) pm1 io1 = (pm2, io2)"
    by (metis surj_pair)
  have "mapKeys pm1 = mapKeys (primitiveMeshes s)" "mapKeys io1 = mapKeys (importedObjects s)"
    using applyMaterialsForLighting_keys [of lit "primitiveMeshes s"
        "importedObjects s" "sceneLightsGroup s"] a by simp_all
  moreover have "mapKeys pm2 = mapKeys pm1" "mapKeys io2 = mapKeys io1"
    using applyDisplayMode_keys [of "displayMode s" pm1 io1] b by simp_all
  ultimately show
    "mapKeys (primitiveMeshes (applyLightingAndMode lit s)) = mapKeys (primitiveMeshes s)"
    "mapKeys (importedObjects (applyLightingAndMode lit s)) = mapKeys (importedObjects s)"
    using a b by (simp_all add: applyLightingAndMode_def)
qed

lemma applyLightingAndMode_fields:
  "lightObjects (applyLightingAndMode lit s) = lightObjects s"
  "sceneLights (applyLightingAndMode lit s) = sceneLights s"
  "loadingImports (applyLightingAndMode lit s) = loadingImports s"
  "isSyncingImports (applyLightingAndMode lit s) = isSyncingImports s"
  "events (applyLightingAndMode lit s) = events s"
  "currentSelectedId (applyLightingAndMode lit s) = currentSelectedId s"
  "selectedObject (applyLightingAndMode lit s) = selectedObject s"
  "isPrimitive (applyLightingAndMode lit s) = isPrimitive s"
  "isLight (applyLightingAndMode lit s) = isLight s"
  by (simp_all add: applyLightingAndMode_def split: prod.splits)

lemma refreshSceneDisplay_keys:
  "mapKeys (primitiveMeshes (refreshSceneDisplay props s)) = mapKeys (primitiveMeshes s)"
  "mapKeys (importedObjects (refreshSceneDisplay props s)) = mapKeys (importedObjects s)"
  by (simp_all add: refreshSceneDisplay_def Let_def applyLightingAndMode_keys)

lemma refreshSceneDisplay_fields:
  "lightObjects (refreshSceneDisplay props s) = lightObjects s"
  "sceneLights (refreshSceneDisplay props s) = sceneLights s"
  "loadingImports (refreshSceneDisplay props s) = loadingImports s"
  "isSyncingImports (refreshSceneDisplay props s) = isSyncingImports s"
  "events (refreshSceneDisplay props s) = events s"
  "currentSelectedId (refreshSceneDisplay props s) = currentSelectedId s"
  "selectedObject (refreshSceneDisplay props s) = selectedObject s"
  "isPrimitive (refreshSceneDisplay props s) = isPrimitive s"
  "isLight (refreshSceneDisplay props s) = isLight s"
  by (simp_all add: refreshSceneDisplay_def Let_def applyLightingAndMode_fields)

lemma reattachPrimitive_fields:
  "primitiveMeshes (reattachPrimitive s) = primitiveMeshes s"
  "importedObjects (reattachPrimitive s) = importedObjects s"
  "lightObjects (reattachPrimitive s) = lightObjects s"
  "sceneLights (reattachPrimitive s) = sceneLights s"
  "loadingImports (reattachPrimitive s) = loadingImports s"
  "currentSelectedId (reattachPrimitive s) = currentSelectedId s"
  "filter isLifecycle (events (reattachPrimitive s)) = filter isLifecycle (events s)"
  by (simp_all add: reattachPrimitive_def selectObject_fields split: option.splits)

lemma reattachLight_fields:
  "primitiveMeshes (reattachLight s) = primitiveMeshes s"
  "importedObjects (reattachLight s) = importedObjects s"
  "lightObjects (reattachLight s) = lightObjects s"
  "sceneLights (reattachLight s) = sceneLights s"
  "loadingImports (reattachLight s) = loadingImports s"
  "currentSelectedId (reattachLight s) = currentSelectedId s"
  "filter isLifecycle (events (reattachLight s)) = filter isLifecycle (events s)"
  by (simp_all add: reattachLight_def selectObject_fields split: option.splits)

section \<open>Primitives sync: the registry\<close>

lemma removeStalePrimitive_meshes:
  "primitiveMeshes (removeStalePrimitive ids (k, m) s)
     = (if k \<in> set ids then primitiveMeshes s else mapDelete k (primitiveMeshes s))"
  by (simp add: removeStalePrimitive_def Let_def logEvent_def selectObject_fields)

lemma fold_removeStalePrimitive_meshes:
  "primitiveMeshes (fold (removeStalePrimitive ids) es s)
     = filter (\<lambda>p. fst p \<in> set ids \<or> fst p \<notin> fst ` set es) (primitiveMeshes s)"
proof (induction es arbitrary: s)
  case Nil
  then show ?case by simp
next
  case (Cons e es)
  obtain k m where e: "e = (k, m)" by (cases e)
  show ?case
    unfolding e
    by (auto simp: Cons.IH removeStalePrimitive_meshes mapDelete_def intro!: filter_cong)
qed

lemma mapKeys_mapUpdate: "mapKeys (mapUpdate k f ps) = mapKeys ps"
  by (induction ps) (auto simp: mapKeys_def mapUpdate_def)

lemma setAdd_member: "k \<in> set ks \<Longrightarrow> setAdd k ks = ks"
  by (simp add: setAdd_def)

lemma removeStalePrimitives_meshes:
  "primitiveMeshes (fold (removeStalePrimitive ids) (primitiveMeshes s) s)
     = filter (\<lambda>p. fst p \<in> set ids) (primitiveMeshes s)"
  unfolding fold_removeStalePrimitive_meshes by (rule filter_cong) auto

lemma syncNode_keys:
  "mapKeys (primitiveMeshes (syncNode n s)) = setAdd (node_id n) (mapKeys (primitiveMeshes s))"
proof (cases "map_of (primitiveMeshes s) (node_id n)")
  case None
  then show ?thesis
    by (simp add: syncNode_def logEvent_def mapKeys_mapUpdate mapKeys_mapSet)
next
  case (Some m)
  then have "node_id n \<in> set (mapKeys (primitiveMeshes s))"
    using map_of_None_keys [of "primitiveMeshes s" "node_id n"] by simp
  with Some show ?thesis
    by (simp add: syncNode_def mapKeys_mapUpdate setAdd_member)
qed

lemma fold_syncNode_keys:
  "set (mapKeys (primitiveMeshes (fold syncNode ns s)))
     = set (mapKeys (primitiveMeshes s)) \<union> node_id ` set ns"
  "distinct (mapKeys (primitiveMeshes (fold syncNode ns s)))
     = distinct (mapKeys (primitiveMeshes s))"
  by (induction ns arbitrary: s) (auto simp: syncNode_keys set_setAdd distinct_setAdd)

lemma syncNode_known:
  "node_id n \<in> set (mapKeys (primitiveMeshes s)) \<Longrightarrow> events (syncNode n s) = events s"
  using map_of_None_keys [of "primitiveMeshes s" "node_id n"]
  by (auto simp: syncNode_def)

lemma fold_syncNode_known:
  "node_id ` set ns \<subseteq> set (mapKeys (primitiveMeshes s)) \<Longrightarrow>
   events (fold syncNode ns s) = events s
   \<and> mapKeys (primitiveMeshes (fold syncNode ns s)) = mapKeys (primitiveMeshes s)"
proof (induction ns arbitrary: s)
  case Nil
  then show ?case by simp
next
  case (Cons n ns)
  then have k: "mapKeys (primitiveMeshes (syncNode n s)) = mapKeys (primitiveMeshes s)"
    by (simp add: syncNode_keys setAdd_member)
  with Cons.prems have "node_id ` set ns \<subseteq> set (mapKeys (primitiveMeshes (syncNode n s)))"
    by simp
  from Cons.IH [OF this] k Cons.prems show ?case
    by (simp add: syncNode_known)
qed

lemma fold_removeStalePrimitive_noop:
  "fst ` set es \<subseteq> set ids \<Longrightarrow> fold (removeStalePrimitive ids) es s = s"
  by (induction es arbitrary: s) (auto simp: removeStalePrimitive_def)

lemma syncPrimitiveNodes_keys:
  "mapKeys (primitiveMeshes (syncPrimitiveNodes props s))
   = mapKeys (primitiveMeshes (fold syncNode (nodes (sceneData props))
        (fold (removeStalePrimitive (map node_id (nodes (sceneData props)))) (primitiveMeshes s) s)))"
  by (simp add: syncPrimitiveNodes_def Let_def reattachPrimitive_fields refreshSceneDisplay_keys
      markPolygonCountDirty_def)

lemma distinct_card_length:
  "distinct ks \<Longrightarrow> distinct js \<Longrightarrow> set ks = set js \<Longrightarrow> length ks = length js"
  by (metis distinct_card)

lemma syncPrimitiveNodes_registry:
  assumes "distinct (mapKeys (primitiveMeshes s))"
  shows "set (mapKeys (primitiveMeshes (syncPrimitiveNodes props s)))
           = node_id ` set (nodes (sceneData props))"
    and "distinct (mapKeys (primitiveMeshes (syncPrimitiveNodes props s)))"
proof -
  let ?ids = "map node_id (nodes (sceneData props))"
  let ?s1 = "fold (removeStalePrimitive ?ids) (primitiveMeshes s) s"
  have k1: "mapKeys (primitiveMeshes ?s1) = filter (\<lambda>k. k \<in> set ?ids) (mapKeys (primitiveMeshes s))"
    by (simp add: removeStalePrimitives_meshes mapKeys_def filter_map comp_def)
  show "set (mapKeys (primitiveMeshes (syncPrimitiveNodes props s)))
           = node_id ` set (nodes (sceneData props))"
    unfolding syncPrimitiveNodes_keys fold_syncNode_keys k1 by auto
  show "distinct (mapKeys (primitiveMeshes (syncPrimitiveNodes props s)))"
    unfolding syncPrimitiveNodes_keys fold_syncNode_keys k1 using assms by simp
qed

lemma syncPrimitiveNodes_settled:
  assumes "set (mapKeys (primitiveMeshes s)) = node_id ` set (nodes (sceneData props))"
  shows "filter isLifecycle (events (syncPrimitiveNodes props s)) = filter isLifecycle (events s)"
    and "mapKeys (primitiveMeshes (syncPrimitiveNodes props s)) = mapKeys (primitiveMeshes s)"
proof -
  let ?ids = "map node_id (nodes (sceneData props))"
  have r: "fold (removeStalePrimitive ?ids) (primitiveMeshes s) s = s"
    using assms by (intro fold_removeStalePrimitive_noop) (simp add: mapKeys_def)
  have a: "events (fold syncNode (nodes (sceneData props)) s) = events s
         \<and> mapKeys (primitiveMeshes (fold syncNode (nodes (sceneData props)) s))
             = mapKeys (primitiveMeshes s)"
    using assms by (intro fold_syncNode_known) simp
  show "mapKeys (primitiveMeshes (syncPrimitiveNodes props s)) = mapKeys (primitiveMeshes s)"
    unfolding syncPrimitiveNodes_keys r using a by simp
  show "filter isLifecycle (events (syncPrimitiveNodes props s)) = filter isLifecycle (events s)"
    using a
    by (simp add: syncPrimitiveNodes_def Let_def r reattachPrimitive_fields
        refreshSceneDisplay_fields markPolygonCountDirty_def)
qed

section \<open>Lights sync: the registries\<close>

lemma removeStaleLightObject_fields:
  "lightObjects (removeStaleLightObject ids (k, ob) s)
     = (if k \<in> set ids then lightObjects s else mapDelete k (lightObjects s))"
  "sceneLights (removeStaleLightObject ids (k, ob) s) = sceneLights s"
  by (simp_all add: removeStaleLightObject_def Let_def logEvent_def selectObject_fields)

lemma removeStaleSceneLight_fields:
  "sceneLights (removeStaleSceneLight ids (k, l) s)
     = (if k \<in> set ids then sceneLights s else mapDelete k (sceneLights s))"
  "lightObjects (removeStaleSceneLight ids (k, l) s) = lightObjects s"
  by (simp_all add: removeStaleSceneLight_def Let_def logEvent_def)

lemma fold_removeStaleLightObject_fields:
  "lightObjects (fold (removeStaleLightObject ids) es s)
     = filter (\<lambda>p. fst p \<in> set ids \<or> fst p \<notin> fst ` set es) (lightObjects s)"
  "sceneLights (fold (removeStaleLightObject ids) es s) = sceneLights s"
proof (induction es arbitrary: s)
  case Nil
  { case 1 show ?case by simp }
  { case 2 show ?case by simp }
next
  case (Cons e es)
  obtain k m where e: "e = (k, m)" by (cases e)
  { case 1 show ?case unfolding e
      by (auto simp: Cons.IH removeStaleLightObject_fields mapDelete_def intro!: filter_cong) }
  { case 2 show ?case unfolding e
      by (simp add: Cons.IH removeStaleLightObject_fields) }
qed

lemma fold_removeStaleSceneLight_fields:
  "sceneLights (fold (removeStaleSceneLight ids) es s)
     = filter (\<lambda>p. fst p \<in> set ids \<or> fst p \<notin> fst ` set es) (sceneLights s)"
  "lightObjects (fold (removeStaleSceneLight ids) es s) = lightObjects s"
proof (induction es arbitrary: s)
  case Nil
  { case 1 show ?case by simp }
  { case 2 show ?case by simp }
next
  case (Cons e es)
  obtain k m where e: "e = (k, m)" by (cases e)
  { case 1 show ?case unfolding e
      by (auto simp: Cons.IH removeStaleSceneLight_fields mapDelete_def intro!: filter_cong) }
  { case 2 show ?case unfolding e
      by (simp add: Cons.IH removeStaleSceneLight_fields) }
qed

lemma removeStaleLights_all:
  "lightObjects (fold (removeStaleLightObject ids) (lightObjects s) s)
     = filter (\<lambda>p. fst p \<in> set ids) (lightObjects s)"
  "sceneLights (fold (removeStaleSceneLight ids) (sceneLights s) s)
     = filter (\<lambda>p. fst p \<in> set ids) (sceneLights s)"
  unfolding fold_removeStaleLightObject_fields fold_removeStaleSceneLight_fields
  by (rule filter_cong; auto)+

lemma syncLight_keys:
  "mapKeys (lightObjects (syncLight l s)) = setAdd (light_id l) (mapKeys (lightObjects s))"
  "mapKeys (sceneLights (syncLight l s)) = setAdd (light_id l) (mapKeys (sceneLights s))"
proof -
  have a: "map_of (lightObjects s) (light_id l) \<noteq> None \<Longrightarrow>
           setAdd (light_id l) (mapKeys (lightObjects s)) = mapKeys (lightObjects s)"
    using map_of_None_keys [of "lightObjects s" "light_id l"] by (simp add: setAdd_member)
  have b: "map_of (sceneLights s) (light_id l) \<noteq> None \<Longrightarrow>
           setAdd (light_id l) (mapKeys (sceneLights s)) = mapKeys (sceneLights s)"
    using map_of_None_keys [of "sceneLights s" "light_id l"] by (simp add: setAdd_member)
  show "mapKeys (lightObjects (syncLight l s)) = setAdd (light_id l) (mapKeys (lightObjects s))"
    using a
    by (cases "map_of (lightObjects s) (light_id l)")
       (simp_all add: syncLight_def Let_def logEvent_def mapKeys_mapUpdate mapKeys_mapSet
          split: option.splits)
  show "mapKeys (sceneLights (syncLight l s)) = setAdd (light_id l) (mapKeys (sceneLights s))"
    using b
    by (cases "map_of (sceneLights s) (light_id l)"; cases "map_of (lightObjects s) (light_id l)")
       (simp_all add: syncLight_def Let_def logEvent_def mapKeys_mapUpdate mapKeys_mapSet)
qed

lemma fold_syncLight_keys:
  "set (mapKeys (lightObjects (fold syncLight ls s)))
     = set (mapKeys (lightObjects s)) \<union> light_id ` set ls"
  "distinct (mapKeys (lightObjects (fold syncLight ls s))) = distinct (mapKeys (lightObjects s))"
  "set (mapKeys (sceneLights (fold syncLight ls s)))
     = set (mapKeys (sceneLights s)) \<union> light_id ` set ls"
  "distinct (mapKeys (sceneLights (fold syncLight ls s))) = distinct (mapKeys (sceneLights s))"
  by (induction ls arbitrary: s) (auto simp: syncLight_keys set_setAdd distinct_setAdd)

lemma syncLight_known:
  "light_id l \<in> set (mapKeys (lightObjects s)) \<Longrightarrow>
   light_id l \<in> set (mapKeys (sceneLights s)) \<Longrightarrow> events (syncLight l s) = events s"
  using map_of_None_keys [of "lightObjects s" "light_id l"]
        map_of_None_keys [of "sceneLights s" "light_id l"]
  by (auto simp: syncLight_def Let_def)

lemma fold_syncLight_known:
  "light_id ` set ls \<subseteq> set (mapKeys (lightObjects s)) \<Longrightarrow>
   light_id ` set ls \<subseteq> set (mapKeys (sceneLights s)) \<Longrightarrow>
   events (fold syncLight ls s) = events s
   \<and> mapKeys (lightObjects (fold syncLight ls s)) = mapKeys (lightObjects s)
   \<and> mapKeys (sceneLights (fold syncLight ls s)) = mapKeys (sceneLights s)"
proof (induction ls arbitrary: s)
  case Nil
  then show ?case by simp
next
  case (Cons l ls)
  then have k: "mapKeys (lightObjects (syncLight l s)) = mapKeys (lightObjects s)"
               "mapKeys (sceneLights (syncLight l s)) = mapKeys (sceneLights s)"
    by (simp_all add: syncLight_keys setAdd_member)
  with Cons.prems have "light_id ` set ls \<subseteq> set (mapKeys (lightObjects (syncLight l s)))"
      "light_id ` set ls \<subseteq> set (mapKeys (sceneLights (syncLight l s)))"
    by simp_all
  from Cons.IH [OF this] k Cons.prems show ?case
    by (simp add: syncLight_known)
qed

lemma fold_removeStaleLightObject_noop:
  "fst ` set es \<subseteq> set ids \<Longrightarrow> fold (removeStaleLightObject ids) es s = s"
  by (induction es arbitrary: s) (auto simp: removeStaleLightObject_def)

lemma fold_removeStaleSceneLight_noop:
  "fst ` set es \<subseteq> set ids \<Longrightarrow> fold (removeStaleSceneLight ids) es s = s"
  by (induction es arbitrary: s) (auto simp: removeStaleSceneLight_def)

lemma syncLights_registries:
  "lightObjects (syncLights props s)
   = lightObjects (fold syncLight (lightsOf props)
       (fold (removeStaleSceneLight (map light_id (lightsOf props)))
          (sceneLights (fold (removeStaleLightObject (map light_id (lightsOf props))) (lightObjects s) s))
          (fold (removeStaleLightObject (map light_id (lightsOf props))) (lightObjects s) s)))"
  "sceneLights (syncLights props s)
   = sceneLights (fold syncLight (lightsOf props)
       (fold (removeStaleSceneLight (map light_id (lightsOf props)))
          (sceneLights (fold (removeStaleLightObject (map light_id (lightsOf props))) (lightObjects s) s))
          (fold (removeStaleLightObject (map light_id (lightsOf props))) (lightObjects s) s)))"
  by (simp_all add: syncLights_def Let_def reattachLight_fields applyLightingAndMode_fields)

lemma syncLights_registry:
  assumes "distinct (mapKeys (lightObjects s))" "distinct (mapKeys (sceneLights s))"
  shows "set (mapKeys (lightObjects (syncLights props s))) = light_id ` set (lightsOf props)"
    and "distinct (mapKeys (lightObjects (syncLights props s)))"
    and "set (mapKeys (sceneLights (syncLights props s))) = light_id ` set (lightsOf props)"
    and "distinct (mapKeys (sceneLights (syncLights props s)))"
proof -
  let ?ids = "map light_id (lightsOf props)"
  let ?s1 = "fold (removeStaleLightObject ?ids) (lightObjects s) s"
  let ?s2 = "fold (removeStaleSceneLight ?ids) (sceneLights ?s1) ?s1"
  have k1: "mapKeys (lightObjects ?s2) = filter (\<lambda>k. k \<in> set ?ids) (mapKeys (lightObjects s))"
    by (simp add: fold_removeStaleSceneLight_fields removeStaleLights_all mapKeys_def filter_map
        comp_def)
  have "sceneLights ?s2 = filter (\<lambda>p. fst p \<in> set ?ids) (sceneLights ?s1)"
    by (rule removeStaleLights_all)
  then have k2: "mapKeys (sceneLights ?s2) = filter (\<lambda>k. k \<in> set ?ids) (mapKeys (sceneLights s))"
    by (simp add: fold_removeStaleLightObject_fields mapKeys_def filter_map comp_def)
  show "set (mapKeys (lightObjects (syncLights props s))) = light_id ` set (lightsOf props)"
    unfolding syncLights_registries fold_syncLight_keys k1 by auto
  show "distinct (mapKeys (lightObjects (syncLights props s)))"
    unfolding syncLights_registries fold_syncLight_keys k1 using assms by simp
  show "set (mapKeys (sceneLights (syncLights props s))) = light_id ` set (lightsOf props)"
    unfolding syncLights_registries fold_syncLight_keys k2 by auto
  show "distinct (mapKeys (sceneLights (syncLights props s)))"
    unfolding syncLights_registries fold_syncLight_keys k2 using assms by simp
qed

lemma syncLights_settled:
  assumes "set (mapKeys (lightObjects s)) = light_id ` set (lightsOf props)"
      and "set (mapKeys (sceneLights s)) = light_id ` set (lightsOf props)"
  shows "filter isLifecycle (events (syncLights props s)) = filter isLifecycle (events s)"
    and "mapKeys (lightObjects (syncLights props s)) = mapKeys (lightObjects s)"
    and "mapKeys (sceneLights (syncLights props s)) = mapKeys (sceneLights s)"
proof -
  let ?ids = "map light_id (lightsOf props)"
  have r1: "fold (removeStaleLightObject ?ids) (lightObjects s) s = s"
    using assms by (intro fold_removeStaleLightObject_noop) (simp add: mapKeys_def)
  have r2: "fold (removeStaleSceneLight ?ids) (sceneLights s) s = s"
    using assms by (intro fold_removeStaleSceneLight_noop) (simp add: mapKeys_def)
  have a: "events (fold syncLight (lightsOf props) s) = events s
         \<and> mapKeys (lightObjects (fold syncLight (lightsOf props) s)) = mapKeys (lightObjects s)
         \<and> mapKeys (sceneLights (fold syncLight (lightsOf props) s)) = mapKeys (sceneLights s)"
    using assms by (intro fold_syncLight_known) simp_all
  show "mapKeys (lightObjects (syncLights props s)) = mapKeys (lightObjects s)"
    unfolding syncLights_registries r1 r2 using a by simp
  show "mapKeys (sceneLights (syncLights props s)) = mapKeys (sceneLights s)"
    unfolding syncLights_registries r1 r2 using a by simp
  show "filter isLifecycle (events (syncLights props s)) = filter isLifecycle (events s)"
    using a
    by (simp add: syncLights_def Let_def r1 r2 reattachLight_fields applyLightingAndMode_fields)
qed

section \<open>Replaying effects\<close>

lemma selAfter_append: "selAfter sel (evs @ evs') = selAfter (selAfter sel evs) evs'"
  by (induction sel evs rule: selAfter.induct) simp_all

lemma annAfter_append: "annAfter ann (evs @ evs') = annAfter (annAfter ann evs) evs'"
  by (induction ann evs rule: annAfter.induct) simp_all

lemma disposedWhileSelected_append:
  "disposedWhileSelected sel ann (evs @ evs')
     = (disposedWhileSelected sel ann evs
        \<or> disposedWhileSelected (selAfter sel evs) (annAfter ann evs) evs')"
  by (induction sel ann evs rule: disposedWhileSelected.induct) simp_all

lemma selectionTraced_start: "selectionTraced (currentSelectedId s) (s\<lparr>events := []\<rparr>)"
  by (simp add: selectionTraced_def)

lemma selectionTraced_cong:
  "selectionTraced sel0 s \<Longrightarrow> events t = events s \<Longrightarrow> currentSelectedId t = currentSelectedId s
   \<Longrightarrow> selectionTraced sel0 t"
  by (simp add: selectionTraced_def)

lemma selectionTraced_quiet:
  "selectionTraced sel0 s \<Longrightarrow> events t = events s @ [e] \<Longrightarrow>
   currentSelectedId t = currentSelectedId s \<Longrightarrow>
   disposedWhileSelected (currentSelectedId s) (currentSelectedId s) [e] = False \<Longrightarrow>
   selAfter (currentSelectedId s) [e] = currentSelectedId s \<Longrightarrow>
   annAfter (currentSelectedId s) [e] = currentSelectedId s \<Longrightarrow>
   selectionTraced sel0 t"
  by (simp add: selectionTraced_def disposedWhileSelected_append selAfter_append annAfter_append)

lemma selectionTraced_reselect:
  "selectionTraced sel0 s \<Longrightarrow>
   selectionTraced sel0 (selectObject ob (currentSelectedId s) p l s)"
  by (simp add: selectionTraced_def selectObject_fields disposedWhileSelected_append
      selAfter_append annAfter_append)

lemma selectionTraced_refresh:
  "selectionTraced sel0 s \<Longrightarrow> selectionTraced sel0 (refreshSceneDisplay props (markPolygonCountDirty s))"
  by (simp add: selectionTraced_def refreshSceneDisplay_fields markPolygonCountDirty_def)

text \<open>One removal: the three registries share the shape of the callback.\<close>

lemma selectionTraced_removal:
  assumes "selectionTraced sel0 s"
  shows "selectionTraced sel0
           (logEvent (DisposeObject3D r k)
              (if currentSelectedId s = Some k then
                 logEvent (EmitSelectObject None False False) (selectObject None None False False s)
               else s))"
  using assms
  by (simp add: selectionTraced_def logEvent_def selectObject_fields disposedWhileSelected_append
      selAfter_append annAfter_append)

lemma selectionTraced_removeStalePrimitive:
  "selectionTraced sel0 s \<Longrightarrow> selectionTraced sel0 (removeStalePrimitive ids e s)"
proof -
  assume a: "selectionTraced sel0 s"
  obtain k m where e: "e = (k, m)" by (cases e)
  show ?thesis
  proof (cases "k \<in> set ids")
    case True
    with a e show ?thesis by (simp add: removeStalePrimitive_def)
  next
    case False
    have "selectionTraced sel0 (removeStalePrimitive ids e s)
          = selectionTraced sel0 (logEvent (DisposeObject3D Primitives k)
              (if currentSelectedId s = Some k then
                 logEvent (EmitSelectObject None False False) (selectObject None None False False s)
               else s))"
      using False e by (simp add: removeStalePrimitive_def Let_def selectionTraced_def)
    with selectionTraced_removal [OF a] show ?thesis by simp
  qed
qed

lemma selectionTraced_removeStaleLightObject:
  "selectionTraced sel0 s \<Longrightarrow> selectionTraced sel0 (removeStaleLightObject ids e s)"
proof -
  assume a: "selectionTraced sel0 s"
  obtain k m where e: "e = (k, m)" by (cases e)
  show ?thesis
  proof (cases "k \<in> set ids")
    case True
    with a e show ?thesis by (simp add: removeStaleLightObject_def)
  next
    case False
    have "selectionTraced sel0 (removeStaleLightObject ids e s)
          = selectionTraced sel0 (logEvent (DisposeObject3D Lights k)
              (if currentSelectedId s = Some k then
                 logEvent (EmitSelectObject None False False) (selectObject None None False False s)
               else s))"
      using False e by (simp add: removeStaleLightObject_def Let_def selectionTraced_def)
    with selectionTraced_removal [OF a] show ?thesis by simp
  qed
qed

lemma selectionTraced_removeStaleImported:
  "selectionTraced sel0 s \<Longrightarrow> selectionTraced sel0 (removeStaleImported ids e s)"
proof -
  assume a: "selectionTraced sel0 s"
  obtain k m where e: "e = (k, m)" by (cases e)
  show ?thesis
  proof (cases "k \<in> set ids")
    case True
    with a e show ?thesis by (simp add: removeStaleImported_def)
  next
    case False
    have "selectionTraced sel0 (removeStaleImported ids e s)
          = selectionTraced sel0 (logEvent (DisposeObject3D Imported k)
              (if currentSelectedId s = Some k then
                 logEvent (EmitSelectObject None False False) (selectObject None None False False s)
               else s))"
      using False e by (simp add: removeStaleImported_def Let_def selectionTraced_def)
    with selectionTraced_removal [OF a] show ?thesis by simp
  qed
qed

lemma selectionTraced_removeStaleSceneLight:
  "selectionTraced sel0 s \<Longrightarrow> selectionTraced sel0 (removeStaleSceneLight ids e s)"
  by (cases e)
     (simp add: removeStaleSceneLight_def Let_def selectionTraced_def logEvent_def
        disposedWhileSelected_append selAfter_append annAfter_append)

lemma selectionTraced_syncNode:
  "selectionTraced sel0 s \<Longrightarrow> selectionTraced sel0 (syncNode n s)"
  by (simp add: syncNode_def Let_def selectionTraced_def logEvent_def
      disposedWhileSelected_append selAfter_append annAfter_append split: option.splits)

lemma selectionTraced_syncLight:
  "selectionTraced sel0 s \<Longrightarrow> selectionTraced sel0 (syncLight l s)"
  by (simp add: syncLight_def Let_def selectionTraced_def logEvent_def
      disposedWhileSelected_append selAfter_append annAfter_append split: option.splits)

lemma selectionTraced_fold:
  "(\<And>e t. selectionTraced sel0 t \<Longrightarrow> selectionTraced sel0 (f e t)) \<Longrightarrow>
   selectionTraced sel0 s \<Longrightarrow> selectionTraced sel0 (fold f es s)"
  by (induction es arbitrary: s) simp_all

lemma selectionTraced_reattachPrimitive:
  "selectionTraced sel0 s \<Longrightarrow> selectionTraced sel0 (reattachPrimitive s)"
  by (simp add: reattachPrimitive_def selectionTraced_reselect split: option.splits)

lemma selectionTraced_reattachLight:
  "selectionTraced sel0 s \<Longrightarrow> selectionTraced sel0 (reattachLight s)"
  by (simp add: reattachLight_def selectionTraced_reselect split: option.splits)

lemma selectionTraced_applyLightingAndMode:
  "selectionTraced sel0 s \<Longrightarrow> selectionTraced sel0 (applyLightingAndMode lit s)"
  by (simp add: selectionTraced_def applyLightingAndMode_fields)

lemma selectionTraced_syncPrimitiveNodes:
  assumes "selectionTraced sel0 s"
  shows "selectionTraced sel0 (syncPrimitiveNodes props s)"
proof -
  let ?ids = "map node_id (nodes (sceneData props))"
  let ?s1 = "fold (removeStalePrimitive ?ids) (primitiveMeshes s) s"
  let ?s2 = "fold syncNode (nodes (sceneData props)) ?s1"
  let ?s3 = "refreshSceneDisplay props (markPolygonCountDirty ?s2)"
  have 1: "selectionTraced sel0 ?s1"
    by (rule selectionTraced_fold) (simp_all add: selectionTraced_removeStalePrimitive assms)
  have 2: "selectionTraced sel0 ?s2"
    by (rule selectionTraced_fold) (simp_all add: selectionTraced_syncNode 1)
  have 3: "selectionTraced sel0 ?s3"
    using 2 by (rule selectionTraced_refresh)
  show ?thesis
    using selectionTraced_reattachPrimitive [OF 3]
    by (simp add: syncPrimitiveNodes_def Let_def)
qed

lemma selectionTraced_syncLights:
  assumes "selectionTraced sel0 s"
  shows "selectionTraced sel0 (syncLights props s)"
proof -
  let ?ids = "map light_id (lightsOf props)"
  let ?s1 = "fold (removeStaleLightObject ?ids) (lightObjects s) s"
  let ?s2 = "fold (removeStaleSceneLight ?ids) (sceneLights ?s1) ?s1"
  let ?s3 = "fold syncLight (lightsOf props) ?s2"
  have 1: "selectionTraced sel0 ?s1"
    by (rule selectionTraced_fold) (simp_all add: selectionTraced_removeStaleLightObject assms)
  have 2: "selectionTraced sel0 ?s2"
    by (rule selectionTraced_fold) (simp_all add: selectionTraced_removeStaleSceneLight 1)
  have 3: "selectionTraced sel0 ?s3"
    by (rule selectionTraced_fold) (simp_all add: selectionTraced_syncLight 2)
  show ?thesis
    using selectionTraced_reattachLight [OF selectionTraced_applyLightingAndMode [OF 3]]
    by (simp add: syncLights_def Let_def)
qed

section \<open>What each pass leaves alone\<close>

lemma fold_preserves: "(\<And>e t. g (f e t) = g t) \<Longrightarrow> g (fold f es s) = g s"
  by (induction es arbitrary: s) simp_all

lemma removeStalePrimitive_others:
  "importedObjects (removeStalePrimitive ids e s) = importedObjects s"
  "lightObjects (removeStalePrimitive ids e s) = lightObjects s"
  "sceneLights (removeStalePrimitive ids e s) = sceneLights s"
  "loadingImports (removeStalePrimitive ids e s) = loadingImports s"
  by (cases e; simp add: removeStalePrimitive_def Let_def logEvent_def selectObject_fields)+

lemma syncNode_others:
  "importedObjects (syncNode n s) = importedObjects s"
  "lightObjects (syncNode n s) = lightObjects s"
  "sceneLights (syncNode n s) = sceneLights s"
  "loadingImports (syncNode n s) = loadingImports s"
  "currentSelectedId (syncNode n s) = currentSelectedId s"
  by (simp_all add: syncNode_def Let_def logEvent_def split: option.splits)

lemma syncPrimitiveNodes_others:
  "mapKeys (importedObjects (syncPrimitiveNodes props s)) = mapKeys (importedObjects s)"
  "lightObjects (syncPrimitiveNodes props s) = lightObjects s"
  "sceneLights (syncPrimitiveNodes props s) = sceneLights s"
  "loadingImports (syncPrimitiveNodes props s) = loadingImports s"
  by (simp_all add: syncPrimitiveNodes_def Let_def reattachPrimitive_fields
      refreshSceneDisplay_keys refreshSceneDisplay_fields markPolygonCountDirty_def
      fold_preserves [where g = importedObjects] fold_preserves [where g = lightObjects]
      fold_preserves [where g = sceneLights] fold_preserves [where g = loadingImports]
      removeStalePrimitive_others syncNode_others)

lemma removeStaleLightObject_others:
  "primitiveMeshes (removeStaleLightObject ids e s) = primitiveMeshes s"
  "importedObjects (removeStaleLightObject ids e s) = importedObjects s"
  "loadingImports (removeStaleLightObject ids e s) = loadingImports s"
  by (cases e; simp add: removeStaleLightObject_def Let_def logEvent_def selectObject_fields)+

lemma removeStaleSceneLight_others:
  "primitiveMeshes (removeStaleSceneLight ids e s) = primitiveMeshes s"
  "importedObjects (removeStaleSceneLight ids e s) = importedObjects s"
  "loadingImports (removeStaleSceneLight ids e s) = loadingImports s"
  "currentSelectedId (removeStaleSceneLight ids e s) = currentSelectedId s"
  by (cases e; simp add: removeStaleSceneLight_def Let_def logEvent_def)+

lemma syncLight_others:
  "primitiveMeshes (syncLight l s) = primitiveMeshes s"
  "importedObjects (syncLight l s) = importedObjects s"
  "loadingImports (syncLight l s) = loadingImports s"
  "currentSelectedId (syncLight l s) = currentSelectedId s"
  by (simp_all add: syncLight_def Let_def logEvent_def split: option.splits)

lemma syncLights_others:
  "mapKeys (primitiveMeshes (syncLights props s)) = mapKeys (primitiveMeshes s)"
  "mapKeys (importedObjects (syncLights props s)) = mapKeys (importedObjects s)"
  "loadingImports (syncLights props s) = loadingImports s"
  by (simp_all add: syncLights_def Let_def reattachLight_fields
      applyLightingAndMode_keys applyLightingAndMode_fields
      fold_preserves [where g = primitiveMeshes] fold_preserves [where g = importedObjects]
      fold_preserves [where g = loadingImports]
      removeStaleLightObject_others removeStaleSceneLight_others syncLight_others)

lemma wellFormed_applyChange: "wellFormed s \<Longrightarrow> wellFormed (applyChange c s)"
  by (cases c)
     (simp_all add: wellFormed_def syncPrimitiveNodes_registry syncPrimitiveNodes_others
        syncLights_registry syncLights_others)

lemma wellFormed_fold_applyChange: "wellFormed s \<Longrightarrow> wellFormed (fold applyChange cs s)"
  by (induction cs arbitrary: s) (simp_all add: wellFormed_applyChange)

lemma wellFormed_initialViewport: "wellFormed initialViewport"
  by (simp add: wellFormed_def initialViewport_def mapKeys_def)

section \<open>The selection after a removal pass\<close>

lemma removal_currentSelectedId:
  "currentSelectedId
     (logEvent (DisposeObject3D r k)
        (if currentSelectedId s = Some k then
           logEvent (EmitSelectObject None False False) (selectObject None None False False s)
         else s))
   = (if currentSelectedId s = Some k then None else currentSelectedId s)"
  by (simp add: logEvent_def selectObject_fields)

lemma removeStalePrimitive_cur:
  "currentSelectedId (removeStalePrimitive ids (k, m) s)
     = (if k \<notin> set ids \<and> currentSelectedId s = Some k then None else currentSelectedId s)"
  by (simp add: removeStalePrimitive_def Let_def logEvent_def selectObject_fields)

lemma removeStaleLightObject_cur:
  "currentSelectedId (removeStaleLightObject ids (k, m) s)
     = (if k \<notin> set ids \<and> currentSelectedId s = Some k then None else currentSelectedId s)"
  by (simp add: removeStaleLightObject_def Let_def logEvent_def selectObject_fields)

lemma removeStaleImported_cur:
  "currentSelectedId (removeStaleImported ids (k, m) s)
     = (if k \<notin> set ids \<and> currentSelectedId s = Some k then None else currentSelectedId s)"
  by (simp add: removeStaleImported_def Let_def logEvent_def selectObject_fields)

lemma fold_removal_cur:
  assumes step: "\<And>k m t. currentSelectedId (f (k, m) t)
     = (if k \<notin> set ids \<and> currentSelectedId t = Some k then None else currentSelectedId t)"
  shows "currentSelectedId (fold f es s)
     = (if \<exists>k \<in> fst ` set es. k \<notin> set ids \<and> currentSelectedId s = Some k then None
        else currentSelectedId s)"
proof (induction es arbitrary: s)
  case Nil
  then show ?case by simp
next
  case (Cons e es)
  obtain k m where e: "e = (k, m)" by (cases e)
  show ?case unfolding e by (auto simp: Cons.IH step)
qed

lemma syncPrimitiveNodes_deselects:
  assumes "currentSelectedId s = Some i" "i \<in> set (mapKeys (primitiveMeshes s))"
      and "i \<notin> node_id ` set (nodes (sceneData props))"
  shows "currentSelectedId (syncPrimitiveNodes props s) = None"
proof -
  have "currentSelectedId (fold (removeStalePrimitive (map node_id (nodes (sceneData props))))
          (primitiveMeshes s) s) = None"
    using assms
    by (subst fold_removal_cur [where ids = "map node_id (nodes (sceneData props))"])
       (auto simp: removeStalePrimitive_cur mapKeys_def)
  then show ?thesis
    by (simp add: syncPrimitiveNodes_def Let_def reattachPrimitive_fields
        refreshSceneDisplay_fields markPolygonCountDirty_def
        fold_preserves [where g = currentSelectedId] syncNode_others)
qed

lemma syncLights_deselects:
  assumes "currentSelectedId s = Some i" "i \<in> set (mapKeys (lightObjects s))"
      and "i \<notin> light_id ` set (lightsOf props)"
  shows "currentSelectedId (syncLights props s) = None"
proof -
  have "currentSelectedId (fold (removeStaleLightObject (map light_id (lightsOf props)))
          (lightObjects s) s) = None"
    using assms
    by (subst fold_removal_cur [where ids = "map light_id (lightsOf props)"])
       (auto simp: removeStaleLightObject_cur mapKeys_def)
  then show ?thesis
    by (simp add: syncLights_def Let_def reattachLight_fields applyLightingAndMode_fields
        fold_preserves [where g = currentSelectedId] syncLight_others
        removeStaleSceneLight_others)
qed

section \<open>Imported assets sync\<close>

lemma removeStaleImported_fields:
  "importedObjects (removeStaleImported ids (k, ob) s)
     = (if k \<in> set ids then importedObjects s else mapDelete k (importedObjects s))"
  by (simp add: removeStaleImported_def Let_def logEvent_def selectObject_fields)

lemma removeStaleImported_others:
  "isSyncingImports (removeStaleImported ids e s) = isSyncingImports s"
  "loadingImports (removeStaleImported ids e s) = loadingImports s"
  by (cases e; simp add: removeStaleImported_def Let_def logEvent_def selectObject_fields)+

lemma fold_removeStaleImported_fields:
  "importedObjects (fold (removeStaleImported ids) es s)
     = filter (\<lambda>p. fst p \<in> set ids \<or> fst p \<notin> fst ` set es) (importedObjects s)"
proof (induction es arbitrary: s)
  case Nil
  then show ?case by simp
next
  case (Cons e es)
  obtain k m where e: "e = (k, m)" by (cases e)
  show ?case unfolding e
    by (auto simp: Cons.IH removeStaleImported_fields mapDelete_def intro!: filter_cong)
qed

lemma removeStaleImported_all:
  "importedObjects (fold (removeStaleImported ids) (importedObjects s) s)
     = filter (\<lambda>p. fst p \<in> set ids) (importedObjects s)"
  unfolding fold_removeStaleImported_fields by (rule filter_cong) auto

lemma loadLoop_fields:
  "importedObjects (fst (loadLoop as i s)) = importedObjects s"
  "currentSelectedId (fst (loadLoop as i s)) = currentSelectedId s"
  by (induction as arbitrary: i s) (simp_all add: logEvent_def)

lemma loadLoop_events:
  "events (fst (loadLoop as i s)) = events s
   \<or> (\<exists>a. events (fst (loadLoop as i s)) = events s @ [LoadStarted a])"
  by (induction as arbitrary: i s) (simp_all add: logEvent_def)

lemma selectionTraced_loadLoop:
  assumes "selectionTraced sel0 s"
  shows "selectionTraced sel0 (fst (loadLoop as i s))"
  using assms loadLoop_events [of as i s]
  by (auto simp: selectionTraced_def loadLoop_fields disposedWhileSelected_append
      selAfter_append annAfter_append)

lemma loadLoop_Awaiting:
  "loadLoop as i s = (s', Awaiting a j) \<Longrightarrow>
   isSyncingImports s' = isSyncingImports s
   \<and> a \<in> set as
   \<and> asset_id a \<notin> set (mapKeys (importedObjects s))
   \<and> asset_id a \<notin> set (loadingImports s)
   \<and> events s' = events s @ [LoadStarted (asset_id a)]
   \<and> loadingImports s' = loadingImports s @ [asset_id a]"
proof (induction as arbitrary: i)
  case Nil
  then show ?case by simp
next
  case (Cons b bs)
  show ?case
  proof (cases "asset_id b \<in> set (mapKeys (importedObjects s)) \<or> asset_id b \<in> set (loadingImports s)")
    case True
    with Cons.prems have "loadLoop bs (Suc i) s = (s', Awaiting a j)" by simp
    from Cons.IH [OF this] show ?thesis by simp
  next
    case False
    with Cons.prems have "s' = logEvent (LoadStarted (asset_id b))
              (s\<lparr>loadingImports := setAdd (asset_id b) (loadingImports s)\<rparr>)" "a = b"
      by auto
    with False show ?thesis by (simp add: logEvent_def setAdd_def)
  qed
qed

lemma loadLoop_Finished:
  "loadLoop as i s = (s', Finished) \<Longrightarrow> s' = s\<lparr>isSyncingImports := False\<rparr>"
proof (induction as arbitrary: i)
  case Nil
  then show ?case by simp
next
  case (Cons b bs)
  show ?case
  proof (cases "asset_id b \<in> set (mapKeys (importedObjects s)) \<or> asset_id b \<in> set (loadingImports s)")
    case True
    with Cons.prems have "loadLoop bs (Suc i) s = (s', Finished)" by simp
    from Cons.IH [OF this] show ?thesis .
  next
    case False
    with Cons.prems show ?thesis by simp
  qed
qed

lemma syncImportedAssets_unfold:
  "\<not> isSyncingImports s \<Longrightarrow>
   syncImportedAssets props s = loadLoop (importedAssets props) 0 (afterRemovals props s)"
  by (simp add: syncImportedAssets_def)

lemma afterRemovals_fields:
  "mapKeys (importedObjects (afterRemovals props s))
     = filter (\<lambda>k. k \<in> asset_id ` set (importedAssets props)) (mapKeys (importedObjects s))"
  "isSyncingImports (afterRemovals props s)"
  "loadingImports (afterRemovals props s) = loadingImports s"
proof -
  define s1 where "s1 = fold (removeStaleImported (map asset_id (importedAssets props)))
           (importedObjects (s\<lparr>isSyncingImports := True\<rparr>)) (s\<lparr>isSyncingImports := True\<rparr>)"
  have "importedObjects s1
        = filter (\<lambda>p. fst p \<in> set (map asset_id (importedAssets props)))
            (importedObjects (s\<lparr>isSyncingImports := True\<rparr>))"
    unfolding s1_def by (rule removeStaleImported_all)
  then have k: "mapKeys (importedObjects s1)
        = filter (\<lambda>k. k \<in> asset_id ` set (importedAssets props)) (mapKeys (importedObjects s))"
    by (simp add: mapKeys_def filter_map comp_def)
  have r: "mapKeys (importedObjects (refreshSceneDisplay props (markPolygonCountDirty s1)))
        = mapKeys (importedObjects s1)"
    by (simp add: refreshSceneDisplay_keys markPolygonCountDirty_def)
  have a: "afterRemovals props s = s1
         \<or> afterRemovals props s = refreshSceneDisplay props (markPolygonCountDirty s1)"
    by (simp add: afterRemovals_def Let_def s1_def)
  from a r k show "mapKeys (importedObjects (afterRemovals props s))
     = filter (\<lambda>k. k \<in> asset_id ` set (importedAssets props)) (mapKeys (importedObjects s))"
    by auto
  have i: "isSyncingImports s1" "loadingImports s1 = loadingImports s"
    unfolding s1_def
    by (simp_all add: fold_preserves [where g = isSyncingImports]
        fold_preserves [where g = loadingImports] removeStaleImported_others)
  from a i show "isSyncingImports (afterRemovals props s)"
    by (auto simp: refreshSceneDisplay_fields markPolygonCountDirty_def)
  from a i show "loadingImports (afterRemovals props s) = loadingImports s"
    by (auto simp: refreshSceneDisplay_fields markPolygonCountDirty_def)
qed

lemma selectionTraced_afterRemovals:
  assumes "selectionTraced sel0 s"
  shows "selectionTraced sel0 (afterRemovals props s)"
proof -
  let ?s0 = "s\<lparr>isSyncingImports := True\<rparr>"
  have 0: "selectionTraced sel0 ?s0"
    using assms by (simp add: selectionTraced_def)
  have 1: "selectionTraced sel0 (fold (removeStaleImported (map asset_id (importedAssets props)))
            (importedObjects ?s0) ?s0)"
    by (rule selectionTraced_fold) (simp_all add: selectionTraced_removeStaleImported 0)
  show ?thesis
    using 1 selectionTraced_refresh [OF 1]
    by (simp add: afterRemovals_def Let_def)
qed

lemma afterRemovals_deselects:
  assumes "currentSelectedId s = Some i" "i \<in> set (mapKeys (importedObjects s))"
      and "i \<notin> asset_id ` set (importedAssets props)"
  shows "currentSelectedId (afterRemovals props s) = None"
proof -
  have "currentSelectedId (fold (removeStaleImported (map asset_id (importedAssets props)))
          (importedObjects (s\<lparr>isSyncingImports := True\<rparr>)) (s\<lparr>isSyncingImports := True\<rparr>)) = None"
    using assms
    by (subst fold_removal_cur [where ids = "map asset_id (importedAssets props)"])
       (auto simp: removeStaleImported_cur mapKeys_def)
  then show ?thesis
    by (simp add: afterRemovals_def Let_def refreshSceneDisplay_fields markPolygonCountDirty_def)
qed

lemma resumeImport_loadLoop:
  assumes "isSyncingImports s"
  obtains t where "resumeImport ar lib res a i arr props s = loadLoop (drop i arr) i t"
    and "isSyncingImports t"
    and "loadingImports t = removeAll (asset_id a) (loadingImports s)"
  using assms
  by (cases res)
     (simp_all add: resumeImport_def Let_def logEvent_def selectObject_fields
        refreshSceneDisplay_fields markPolygonCountDirty_def)

lemma resumeImport_Awaiting:
  assumes "isSyncingImports s" "resumeImport ar lib res a i arr props s = (s', Awaiting a' i')"
  shows "isSyncingImports s'"
    and "asset_id a' \<notin> set (mapKeys (importedObjects s'))"
    and "asset_id a' \<notin> set (removeAll (asset_id a) (loadingImports s))"
    and "loadingImports s' = removeAll (asset_id a) (loadingImports s) @ [asset_id a']"
proof -
  obtain t where t: "resumeImport ar lib res a i arr props s = loadLoop (drop i arr) i t"
    and ti: "isSyncingImports t"
    and tl: "loadingImports t = removeAll (asset_id a) (loadingImports s)"
    by (rule resumeImport_loadLoop [OF assms(1)])
  from t assms(2) have l: "loadLoop (drop i arr) i t = (s', Awaiting a' i')" by simp
  have k: "importedObjects s' = importedObjects t"
    using loadLoop_fields(1) [of "drop i arr" i t] l by simp
  from loadLoop_Awaiting [OF l] ti show "isSyncingImports s'" by simp
  from loadLoop_Awaiting [OF l] k show "asset_id a' \<notin> set (mapKeys (importedObjects s'))"
    by simp
  from loadLoop_Awaiting [OF l] tl
  show "asset_id a' \<notin> set (removeAll (asset_id a) (loadingImports s))" by simp
  from loadLoop_Awaiting [OF l] tl
  show "loadingImports s' = removeAll (asset_id a) (loadingImports s) @ [asset_id a']" by simp
qed

section \<open>Concrete runs\<close>

lemma mapKeys_simps:
  "mapKeys [] = []" "mapKeys (p # ps) = fst p # mapKeys ps"
  by (simp_all add: mapKeys_def)

lemma populated_fields:
  "currentSelectedId (populated sel kind) = sel"
  "mapKeys (primitiveMeshes (populated sel kind)) = [''node_1'', ''node_2'']"
  "mapKeys (lightObjects (populated sel kind)) = [''light_1'']"
  "mapKeys (importedObjects (populated sel kind)) = [''asset_b'']"
  "\<not> isSyncingImports (populated sel kind)"
  "loadingImports (populated sel kind) = []"
  "(populated sel kind)\<lparr>events := []\<rparr> = populated sel kind"
  by (simp_all add: populated_def initialViewport_def mapKeys_def)

lemma afterDeletion_ids:
  "node_id ` set (nodes (sceneData (propsOf afterDeletion assets))) = {''node_2''}"
  "lightsOf (propsOf afterDeletion assets) = []"
  "importedAssets (propsOf scene assets) = assets"
  by (simp_all add: propsOf_def afterDeletion_def emptyScene_def boxNode_def lightsOf_def)

lemma populated_primitive_log: "events (syncPrimitiveNodes (propsOf afterDeletion [assetB]) (populated (Some ''node_1'') Primitives))
   = [CallSelectObject None, EmitSelectObject None False False, DisposeObject3D Primitives ''node_1'']"
  by (simp add: syncPrimitiveNodes_def Let_def reattachPrimitive_def refreshSceneDisplay_fields
      markPolygonCountDirty_def populated_def initialViewport_def propsOf_def afterDeletion_def
      emptyScene_def boxNode_def removeStalePrimitive_def syncNode_def logEvent_def
      selectObject_def updateSelectionHelper_def mapDelete_def truthy_def)

lemma populated_light_log: "events (syncLights (propsOf afterDeletion [assetB]) (populated (Some ''light_1'') Lights))
   = [CallSelectObject None, EmitSelectObject None False False, DisposeObject3D Lights ''light_1'',
      LightDispose ''light_1'']"
  by (simp add: syncLights_def Let_def reattachLight_def applyLightingAndMode_fields
      populated_def initialViewport_def propsOf_def afterDeletion_def lightsOf_def
      emptyScene_def removeStaleLightObject_def removeStaleSceneLight_def logEvent_def
      selectObject_def updateSelectionHelper_def mapDelete_def truthy_def)

lemma populated_imported_log: "events (fst (syncImportedAssets (propsOf afterDeletion [assetA]) (populated (Some ''asset_b'') Imported)))
   = [CallSelectObject None, EmitSelectObject None False False, DisposeObject3D Imported ''asset_b'',
      LoadStarted ''asset_a'']"
  by (simp add: syncImportedAssets_def afterRemovals_def Let_def refreshSceneDisplay_fields
      refreshSceneDisplay_keys
      markPolygonCountDirty_def populated_def initialViewport_def propsOf_def assetA_def
      removeStaleImported_def logEvent_def mapKeys_simps setAdd_def
      selectObject_def updateSelectionHelper_def mapDelete_def truthy_def)

lemma first_invocation:
  "syncImportedAssets (propsOf emptyScene [assetB, assetA]) (populated None Imported)
   = (suspended, Awaiting assetA 2)"
  unfolding suspended_def
  by (simp add: syncImportedAssets_def afterRemovals_def Let_def
      populated_def initialViewport_def propsOf_def assetA_def assetB_def
      removeStaleImported_def logEvent_def mapKeys_def setAdd_def)


lemma suspended_fields:
  "isSyncingImports suspended"
  "mapKeys (importedObjects suspended) = [''asset_b'']"
  "loadingImports suspended = [''asset_a'']"
  by (simp_all add: suspended_def logEvent_def populated_fields)

lemma failed_resume:
  "snd (resumeImport exactArith emptyBoxes None assetA 2 [assetB, assetA, assetC]
          (propsOf emptyScene [assetB, assetA, assetC]) suspended) = Awaiting assetC 3"
  "mapKeys (importedObjects (fst (resumeImport exactArith emptyBoxes None assetA 2
          [assetB, assetA, assetC] (propsOf emptyScene [assetB, assetA, assetC]) suspended)))
     = [''asset_b'']"
  "loadingImports (fst (resumeImport exactArith emptyBoxes None assetA 2
          [assetB, assetA, assetC] (propsOf emptyScene [assetB, assetA, assetC]) suspended))
     = [''asset_c'']"
  by (simp_all add: resumeImport_def Let_def logEvent_def suspended_def populated_def
      initialViewport_def mapKeys_simps setAdd_def assetA_def assetB_def assetC_def)

lemma first_invocation_selected:
  "syncImportedAssets (propsOf emptyScene [assetB, assetA]) (populated (Some ''asset_b'') Imported)
   = (suspendedSelected, Awaiting assetA 2)"
  unfolding suspendedSelected_def
  by (simp add: syncImportedAssets_def afterRemovals_def Let_def
      populated_def initialViewport_def propsOf_def assetA_def assetB_def
      removeStaleImported_def logEvent_def mapKeys_def setAdd_def)

lemma suspendedSelected_fields:
  "isSyncingImports suspendedSelected"
  "mapKeys (importedObjects suspendedSelected) = [''asset_b'']"
  "currentSelectedId suspendedSelected = Some ''asset_b''"
  by (simp_all add: suspendedSelected_def logEvent_def populated_fields)

section \<open>Selection is cleared before disposal\<close>

text \<open>
  Claim C1 as stated fails in its consequence for imported assets. The imported model
  \<open>asset_b\<close> is selected and an invocation of \<^verbatim>\<open>syncImportedAssets\<close> waits for the decode
  of \<open>asset_a\<close>; \<open>asset_b\<close> is then taken off the asset list and \<^verbatim>\<open>syncImportedAssets\<close> is
  invoked again. The re-entrancy guard makes that pass return at once: after it the
  selection id is still \<open>asset_b\<close>, and \<open>asset_b\<close> is still registered.
\<close>

theorem C1_guarded_sync_keeps_selection_counterexample:
  "snd (syncImportedAssets (propsOf emptyScene [assetB, assetA])
          (populated (Some ''asset_b'') Imported)) = Awaiting assetA 2
   \<and> map asset_id (importedAssets (propsOf emptyScene [assetA])) = [''asset_a'']
   \<and> mapKeys (importedObjects (fst (syncImportedAssets (propsOf emptyScene [assetB, assetA])
                (populated (Some ''asset_b'') Imported)))) = [''asset_b'']
   \<and> currentSelectedId (fst (syncImportedAssets (propsOf emptyScene [assetB, assetA])
                (populated (Some ''asset_b'') Imported))) = Some ''asset_b''
   \<and> currentSelectedId (fst (syncImportedAssets (propsOf emptyScene [assetA])
        (fst (syncImportedAssets (propsOf emptyScene [assetB, assetA])
                (populated (Some ''asset_b'') Imported))))) = Some ''asset_b''
   \<and> events (fst (syncImportedAssets (propsOf emptyScene [assetA])
        (fst (syncImportedAssets (propsOf emptyScene [assetB, assetA])
                (populated (Some ''asset_b'') Imported))))) = [LoadStarted ''asset_a'']"
  unfolding first_invocation_selected
  by (simp add: suspendedSelected_fields syncImportedAssets_def propsOf_def assetA_def)
     (simp add: suspendedSelected_def logEvent_def populated_def initialViewport_def)

text \<open>
  Claim C1, amended: in each of the three removal paths (primitive nodes, lights,
  imported assets), run from any state, no \<^verbatim>\<open>disposeObject3D\<close> runs on the renderable of
  an id that is, at that moment, still the controller's selection or still the selection
  last emitted to the parent: whenever the selected entry is removed, \<^verbatim>\<open>selectObject(null,
  ...)\<close> and the null \<^verbatim>\<open>select-object\<close> event come first. Consequently, when the
  selected id is registered and has left the document, the selection id is null after
  the primitives pass, resp. the lights pass; when it is registered and has left the
  asset list, the selection id is null after the pass of an imported-asset invocation
  that begins while no other is in progress. An invocation that arrives while another is
  in progress returns at once, with the state, and so the selection, as it was.
\<close>

theorem C1_selection_cleared_before_disposal:
  "\<not> disposedWhileSelected (currentSelectedId s) (currentSelectedId s)
        (events (syncPrimitiveNodes props (s\<lparr>events := []\<rparr>)))
   \<and> \<not> disposedWhileSelected (currentSelectedId s) (currentSelectedId s)
        (events (syncLights props (s\<lparr>events := []\<rparr>)))
   \<and> \<not> disposedWhileSelected (currentSelectedId s) (currentSelectedId s)
        (events (fst (syncImportedAssets props (s\<lparr>events := []\<rparr>))))
   \<and> (currentSelectedId s = Some i \<and> i \<in> set (mapKeys (primitiveMeshes s))
        \<and> i \<notin> node_id ` set (nodes (sceneData props))
      \<longrightarrow> currentSelectedId (syncPrimitiveNodes props s) = None)
   \<and> (currentSelectedId s = Some i \<and> i \<in> set (mapKeys (lightObjects s))
        \<and> i \<notin> light_id ` set (lightsOf props)
      \<longrightarrow> currentSelectedId (syncLights props s) = None)
   \<and> (currentSelectedId s = Some i \<and> i \<in> set (mapKeys (importedObjects s))
        \<and> i \<notin> asset_id ` set (importedAssets props) \<and> \<not> isSyncingImports s
      \<longrightarrow> currentSelectedId (fst (syncImportedAssets props s)) = None)
   \<and> (isSyncingImports s \<longrightarrow> syncImportedAssets props s = (s, Finished))"
proof -
  let ?s0 = "s\<lparr>events := []\<rparr>"
  have t: "selectionTraced (currentSelectedId s) ?s0"
    using selectionTraced_start [of s] .
  have p: "\<not> disposedWhileSelected (currentSelectedId s) (currentSelectedId s)
        (events (syncPrimitiveNodes props ?s0))"
    using selectionTraced_syncPrimitiveNodes [OF t, of props] by (simp add: selectionTraced_def)
  have l: "\<not> disposedWhileSelected (currentSelectedId s) (currentSelectedId s)
        (events (syncLights props ?s0))"
    using selectionTraced_syncLights [OF t, of props] by (simp add: selectionTraced_def)
  have m: "\<not> disposedWhileSelected (currentSelectedId s) (currentSelectedId s)
        (events (fst (syncImportedAssets props ?s0)))"
  proof (cases "isSyncingImports s")
    case True
    then show ?thesis by (simp add: syncImportedAssets_def)
  next
    case False
    then show ?thesis
      using selectionTraced_loadLoop [OF selectionTraced_afterRemovals [OF t, of props],
          of "importedAssets props" 0]
      by (simp add: syncImportedAssets_def selectionTraced_def)
  qed
  have m': "currentSelectedId s = Some i \<and> i \<in> set (mapKeys (importedObjects s))
        \<and> i \<notin> asset_id ` set (importedAssets props) \<and> \<not> isSyncingImports s
      \<longrightarrow> currentSelectedId (fst (syncImportedAssets props s)) = None"
    by (simp add: syncImportedAssets_def loadLoop_fields afterRemovals_deselects)
  have g: "isSyncingImports s \<longrightarrow> syncImportedAssets props s = (s, Finished)"
    by (simp add: syncImportedAssets_def)
  from p l m m' g show ?thesis
    by (simp add: syncPrimitiveNodes_deselects syncLights_deselects)
qed


theorem C1_selection_cleared_witness:
  "events (syncPrimitiveNodes (propsOf afterDeletion [assetB])
             (populated (Some ''node_1'') Primitives))
     = [CallSelectObject None, EmitSelectObject None False False,
        DisposeObject3D Primitives ''node_1'']
   \<and> currentSelectedId (syncPrimitiveNodes (propsOf afterDeletion [assetB])
                          (populated (Some ''node_1'') Primitives)) = None
   \<and> events (syncLights (propsOf afterDeletion [assetB]) (populated (Some ''light_1'') Lights))
     = [CallSelectObject None, EmitSelectObject None False False,
        DisposeObject3D Lights ''light_1'', LightDispose ''light_1'']
   \<and> currentSelectedId (syncLights (propsOf afterDeletion [assetB])
                          (populated (Some ''light_1'') Lights)) = None
   \<and> events (fst (syncImportedAssets (propsOf afterDeletion [assetA])
                     (populated (Some ''asset_b'') Imported)))
     = [CallSelectObject None, EmitSelectObject None False False,
        DisposeObject3D Imported ''asset_b'', LoadStarted ''asset_a'']
   \<and> currentSelectedId (fst (syncImportedAssets (propsOf afterDeletion [assetA])
                               (populated (Some ''asset_b'') Imported))) = None
   \<and> syncImportedAssets (propsOf emptyScene [assetA]) suspendedSelected
       = (suspendedSelected, Finished)"
proof -
  have a: "asset_id ` set [assetA] = {''asset_a''}"
    by (simp add: assetA_def)
  from C1_selection_cleared_before_disposal
         [of "populated (Some ''node_1'') Primitives" "propsOf afterDeletion [assetB]" "''node_1''"]
       C1_selection_cleared_before_disposal
         [of "populated (Some ''light_1'') Lights" "propsOf afterDeletion [assetB]" "''light_1''"]
       C1_selection_cleared_before_disposal
         [of "populated (Some ''asset_b'') Imported" "propsOf afterDeletion [assetA]" "''asset_b''"]
       C1_selection_cleared_before_disposal
         [of suspendedSelected "propsOf emptyScene [assetA]" "''asset_b''"]
       populated_primitive_log populated_light_log populated_imported_log a
  show ?thesis
    by (simp add: populated_fields afterDeletion_ids suspendedSelected_fields)
qed

section \<open>The registries match the document\<close>

lemma length_registry:
  assumes "distinct (mapKeys ps)" "distinct ks" "set (mapKeys ps) = set ks"
  shows "length ps = length ks"
proof -
  have "length ps = length (mapKeys ps)" by (simp add: mapKeys_def)
  also have "\<dots> = card (set (mapKeys ps))" using assms(1) by (simp add: distinct_card)
  also have "\<dots> = length ks" using assms(2,3) by (simp add: distinct_card)
  finally show ?thesis .
qed

text \<open>
  Claim C2: start from any state whose registries are well-formed maps and let any
  sequence of document changes be synchronised. Then a run of \<^verbatim>\<open>syncPrimitiveNodes\<close>
  on a document with unique node ids leaves exactly one primitive renderable per node
  (the registry's size is \<^verbatim>\<open>nodes.length\<close> and its keys are the node ids), a run
  of \<^verbatim>\<open>syncLights\<close> on a document with unique light ids leaves exactly one billboard
  and one directional light per document light, and running the same pass a second time
  on the unchanged document creates nothing, disposes of nothing and leaves the same
  entries.
\<close>

theorem C2_registry_matches_document:
  assumes "wellFormed s0"
  shows "(distinct (map node_id (nodes (sceneData props))) \<longrightarrow>
            length (primitiveMeshes (syncPrimitiveNodes props (fold applyChange cs s0)))
              = length (nodes (sceneData props)))
       \<and> set (mapKeys (primitiveMeshes (syncPrimitiveNodes props (fold applyChange cs s0))))
           = node_id ` set (nodes (sceneData props))
       \<and> (distinct (map light_id (lightsOf props)) \<longrightarrow>
            length (lightObjects (syncLights props (fold applyChange cs s0)))
              = length (lightsOf props)
            \<and> length (sceneLights (syncLights props (fold applyChange cs s0)))
              = length (lightsOf props))
       \<and> set (mapKeys (lightObjects (syncLights props (fold applyChange cs s0))))
           = light_id ` set (lightsOf props)
       \<and> set (mapKeys (sceneLights (syncLights props (fold applyChange cs s0))))
           = light_id ` set (lightsOf props)
       \<and> filter isLifecycle (events (syncPrimitiveNodes props
             ((syncPrimitiveNodes props (fold applyChange cs s0))\<lparr>events := []\<rparr>))) = []
       \<and> mapKeys (primitiveMeshes (syncPrimitiveNodes props
             (syncPrimitiveNodes props (fold applyChange cs s0))))
           = mapKeys (primitiveMeshes (syncPrimitiveNodes props (fold applyChange cs s0)))
       \<and> filter isLifecycle (events (syncLights props
             ((syncLights props (fold applyChange cs s0))\<lparr>events := []\<rparr>))) = []
       \<and> mapKeys (lightObjects (syncLights props (syncLights props (fold applyChange cs s0))))
           = mapKeys (lightObjects (syncLights props (fold applyChange cs s0)))
       \<and> mapKeys (sceneLights (syncLights props (syncLights props (fold applyChange cs s0))))
           = mapKeys (sceneLights (syncLights props (fold applyChange cs s0)))"
proof -
  let ?s = "fold applyChange cs s0"
  have wf: "wellFormed ?s"
    using assms by (rule wellFormed_fold_applyChange)
  then have d: "distinct (mapKeys (primitiveMeshes ?s))" "distinct (mapKeys (lightObjects ?s))"
      "distinct (mapKeys (sceneLights ?s))"
    by (simp_all add: wellFormed_def)
  note P = syncPrimitiveNodes_registry [OF d(1), of props]
  note L = syncLights_registry [OF d(2) d(3), of props]
  have 1: "distinct (map node_id (nodes (sceneData props))) \<longrightarrow>
            length (primitiveMeshes (syncPrimitiveNodes props ?s)) = length (nodes (sceneData props))"
    using length_registry [OF P(2), of "map node_id (nodes (sceneData props))"] P(1) by simp
  have 2: "distinct (map light_id (lightsOf props)) \<longrightarrow>
            length (lightObjects (syncLights props ?s)) = length (lightsOf props)
            \<and> length (sceneLights (syncLights props ?s)) = length (lightsOf props)"
    using length_registry [OF L(2), of "map light_id (lightsOf props)"] L(1)
          length_registry [OF L(4), of "map light_id (lightsOf props)"] L(3) by simp
  have 3: "filter isLifecycle (events (syncPrimitiveNodes props
             ((syncPrimitiveNodes props ?s)\<lparr>events := []\<rparr>))) = []"
    using syncPrimitiveNodes_settled(1) [of "(syncPrimitiveNodes props ?s)\<lparr>events := []\<rparr>" props]
          P(1) by simp
  have 4: "filter isLifecycle (events (syncLights props
             ((syncLights props ?s)\<lparr>events := []\<rparr>))) = []"
    using syncLights_settled(1) [of "(syncLights props ?s)\<lparr>events := []\<rparr>" props]
          L(1) L(3) by simp
  from 1 2 3 4 P(1) L(1) L(3)
       syncPrimitiveNodes_settled(2) [OF P(1)]
       syncLights_settled(2) [OF L(1) L(3)] syncLights_settled(3) [OF L(1) L(3)]
  show ?thesis by simp
qed


theorem C2_registry_matches_document_witness:
  "wellFormed initialViewport
   \<and> distinct (map node_id (nodes (sceneData (propsOf afterDeletion []))))
   \<and> distinct (map light_id (lightsOf (propsOf twoBoxScene [])))
   \<and> length (primitiveMeshes (syncPrimitiveNodes (propsOf afterDeletion [])
        (fold applyChange [NodesChanged (propsOf twoBoxScene []),
                           LightsChanged (propsOf twoBoxScene [])] initialViewport))) = 1
   \<and> length (lightObjects (syncLights (propsOf twoBoxScene [])
        (fold applyChange [NodesChanged (propsOf twoBoxScene []),
                           LightsChanged (propsOf twoBoxScene [])] initialViewport))) = 1
   \<and> length (sceneLights (syncLights (propsOf twoBoxScene [])
        (fold applyChange [NodesChanged (propsOf twoBoxScene []),
                           LightsChanged (propsOf twoBoxScene [])] initialViewport))) = 1"
proof -
  have d: "distinct (map node_id (nodes (sceneData (propsOf afterDeletion []))))"
          "length (nodes (sceneData (propsOf afterDeletion []))) = 1"
    by (simp_all add: propsOf_def afterDeletion_def emptyScene_def)
  have l: "distinct (map light_id (lightsOf (propsOf twoBoxScene [])))"
          "length (lightsOf (propsOf twoBoxScene [])) = 1"
    by (simp_all add: propsOf_def twoBoxScene_def emptyScene_def lightsOf_def)
  from C2_registry_matches_document [OF wellFormed_initialViewport,
         of "propsOf afterDeletion []"
            "[NodesChanged (propsOf twoBoxScene []), LightsChanged (propsOf twoBoxScene [])]"]
       C2_registry_matches_document [OF wellFormed_initialViewport,
         of "propsOf twoBoxScene []"
            "[NodesChanged (propsOf twoBoxScene []), LightsChanged (propsOf twoBoxScene [])]"]
       d l wellFormed_initialViewport
  show ?thesis by simp
qed

section \<open>Re-entrant imported-asset sync\<close>

text \<open>
  Claim C3 as stated fails in its second half. While an invocation waits for the decode
  of \<open>asset_a\<close>, \<open>asset_b\<close> is taken off the asset list and \<^verbatim>\<open>syncImportedAssets\<close> is
  invoked again: the re-entrancy guard makes the second invocation return at once, and
  \<open>asset_b\<close> is still in the registry after it.
\<close>

theorem C3_removal_skipped_counterexample:
  "\<not> isSyncingImports (populated None Imported)
   \<and> snd (syncImportedAssets (propsOf emptyScene [assetB, assetA]) (populated None Imported))
       = Awaiting assetA 2
   \<and> ''asset_b'' \<notin> asset_id ` set (importedAssets (propsOf emptyScene [assetA]))
   \<and> mapKeys (importedObjects (fst (syncImportedAssets (propsOf emptyScene [assetA])
        (fst (syncImportedAssets (propsOf emptyScene [assetB, assetA])
                (populated None Imported))))))
       = [''asset_b'']"
  unfolding first_invocation
  by (simp add: populated_fields suspended_fields syncImportedAssets_def propsOf_def assetA_def)

text \<open>
  Claim C3, amended: an invocation of \<^verbatim>\<open>syncImportedAssets\<close> that arrives while a
  prior invocation is still resolving a decode (after the prior invocation's first
  suspension or any later one) returns at once and changes nothing: it starts no load,
  so no asset id gets a second load or a second renderable, and it removes nothing. An
  invocation that starts while none is running removes from the registry every entry
  whose id has left the asset list, and every load it starts, the first one and each one
  it starts when it is resumed after a decode, is for an id that is neither registered
  nor in flight at that moment (the in-flight set being, on resumption, the one before
  with the id just decoded taken out).
\<close>

theorem C3_reentrant_sync_is_skipped:
  "(isSyncingImports s \<longrightarrow> syncImportedAssets props s = (s, Finished))
   \<and> (\<not> isSyncingImports s \<and> syncImportedAssets props s = (s1, Awaiting a n) \<longrightarrow>
        isSyncingImports s1 \<and> syncImportedAssets props' s1 = (s1, Finished)
        \<and> asset_id a \<notin> set (loadingImports s)
        \<and> asset_id a \<notin> set (mapKeys (importedObjects s1)))
   \<and> (isSyncingImports s \<and> resumeImport ar lib res a n arr props s = (s2, Awaiting a' n') \<longrightarrow>
        isSyncingImports s2 \<and> syncImportedAssets props' s2 = (s2, Finished)
        \<and> asset_id a' \<notin> set (removeAll (asset_id a) (loadingImports s))
        \<and> asset_id a' \<notin> set (mapKeys (importedObjects s2))
        \<and> loadingImports s2 = removeAll (asset_id a) (loadingImports s) @ [asset_id a'])
   \<and> (\<not> isSyncingImports s \<longrightarrow>
        mapKeys (importedObjects (fst (syncImportedAssets props s)))
          = filter (\<lambda>k. k \<in> asset_id ` set (importedAssets props)) (mapKeys (importedObjects s)))"
proof -
  have 1: "isSyncingImports s \<longrightarrow> syncImportedAssets props s = (s, Finished)"
    by (simp add: syncImportedAssets_def)
  have 2: "\<not> isSyncingImports s \<and> syncImportedAssets props s = (s1, Awaiting a n) \<longrightarrow>
        isSyncingImports s1 \<and> syncImportedAssets props' s1 = (s1, Finished)
        \<and> asset_id a \<notin> set (loadingImports s)
        \<and> asset_id a \<notin> set (mapKeys (importedObjects s1))"
  proof
    assume h: "\<not> isSyncingImports s \<and> syncImportedAssets props s = (s1, Awaiting a n)"
    then have "loadLoop (importedAssets props) 0 (afterRemovals props s) = (s1, Awaiting a n)"
      by (auto simp: syncImportedAssets_def)
    from loadLoop_Awaiting [OF this] loadLoop_fields(1) [of "importedAssets props" 0 "afterRemovals props s"] this
    show "isSyncingImports s1 \<and> syncImportedAssets props' s1 = (s1, Finished)
        \<and> asset_id a \<notin> set (loadingImports s)
        \<and> asset_id a \<notin> set (mapKeys (importedObjects s1))"
      by (auto simp add: afterRemovals_fields syncImportedAssets_def)
  qed
  have 3: "isSyncingImports s \<and> resumeImport ar lib res a n arr props s = (s2, Awaiting a' n') \<longrightarrow>
        isSyncingImports s2 \<and> syncImportedAssets props' s2 = (s2, Finished)
        \<and> asset_id a' \<notin> set (removeAll (asset_id a) (loadingImports s))
        \<and> asset_id a' \<notin> set (mapKeys (importedObjects s2))
        \<and> loadingImports s2 = removeAll (asset_id a) (loadingImports s) @ [asset_id a']"
  proof
    assume h: "isSyncingImports s \<and> resumeImport ar lib res a n arr props s = (s2, Awaiting a' n')"
    then have i: "isSyncingImports s"
      and r: "resumeImport ar lib res a n arr props s = (s2, Awaiting a' n')"
      by simp_all
    note f = resumeImport_Awaiting [OF i r]
    from f(1) have "syncImportedAssets props' s2 = (s2, Finished)"
      by (simp add: syncImportedAssets_def)
    with f show "isSyncingImports s2 \<and> syncImportedAssets props' s2 = (s2, Finished)
        \<and> asset_id a' \<notin> set (removeAll (asset_id a) (loadingImports s))
        \<and> asset_id a' \<notin> set (mapKeys (importedObjects s2))
        \<and> loadingImports s2 = removeAll (asset_id a) (loadingImports s) @ [asset_id a']"
      by blast
  qed
  have 4: "\<not> isSyncingImports s \<longrightarrow>
        mapKeys (importedObjects (fst (syncImportedAssets props s)))
          = filter (\<lambda>k. k \<in> asset_id ` set (importedAssets props)) (mapKeys (importedObjects s))"
    by (simp add: syncImportedAssets_def loadLoop_fields afterRemovals_fields)
  from 1 2 3 4 show ?thesis by blast
qed

theorem C3_reentrant_sync_witness:
  "\<not> isSyncingImports (populated None Imported)
   \<and> syncImportedAssets (propsOf emptyScene [assetB, assetA]) (populated None Imported)
       = (suspended, Awaiting assetA 2)
   \<and> isSyncingImports suspended
   \<and> syncImportedAssets (propsOf emptyScene [assetA]) suspended = (suspended, Finished)
   \<and> snd (resumeImport exactArith emptyBoxes None assetA 2 [assetB, assetA, assetC]
             (propsOf emptyScene [assetB, assetA, assetC]) suspended) = Awaiting assetC 3
   \<and> syncImportedAssets (propsOf emptyScene [assetA])
        (fst (resumeImport exactArith emptyBoxes None assetA 2 [assetB, assetA, assetC]
                (propsOf emptyScene [assetB, assetA, assetC]) suspended))
       = (fst (resumeImport exactArith emptyBoxes None assetA 2 [assetB, assetA, assetC]
                 (propsOf emptyScene [assetB, assetA, assetC]) suspended), Finished)
   \<and> loadingImports suspended = [''asset_a'']
   \<and> mapKeys (importedObjects
        (fst (resumeImport exactArith emptyBoxes None assetA 2 [assetB, assetA, assetC]
                (propsOf emptyScene [assetB, assetA, assetC]) suspended))) = [''asset_b'']
   \<and> loadingImports
        (fst (resumeImport exactArith emptyBoxes None assetA 2 [assetB, assetA, assetC]
                (propsOf emptyScene [assetB, assetA, assetC]) suspended)) = [''asset_c'']
   \<and> mapKeys (importedObjects (fst (syncImportedAssets (propsOf emptyScene [assetA])
                                       (populated None Imported)))) = []"
proof -
  define s2 where "s2 = fst (resumeImport exactArith emptyBoxes None assetA 2
                               [assetB, assetA, assetC]
                               (propsOf emptyScene [assetB, assetA, assetC]) suspended)"
  have r: "resumeImport exactArith emptyBoxes None assetA 2 [assetB, assetA, assetC]
             (propsOf emptyScene [assetB, assetA, assetC]) suspended = (s2, Awaiting assetC 3)"
    using failed_resume(1) unfolding s2_def by (simp add: prod_eq_iff)
  have n: "\<not> isSyncingImports (populated None Imported)"
    by (simp add: populated_fields)
  have k: "filter (\<lambda>k. k \<in> asset_id ` set (importedAssets (propsOf emptyScene [assetA])))
             (mapKeys (importedObjects (populated None Imported))) = []"
    by (simp add: populated_fields propsOf_def assetA_def)
  have a: "isSyncingImports suspended
           \<and> syncImportedAssets (propsOf emptyScene [assetA]) suspended = (suspended, Finished)"
    using C3_reentrant_sync_is_skipped
            [of "populated None Imported" "propsOf emptyScene [assetB, assetA]" suspended assetA 2
               "propsOf emptyScene [assetA]"]
          n first_invocation
    by blast
  have b: "syncImportedAssets (propsOf emptyScene [assetA]) s2 = (s2, Finished)
           \<and> loadingImports s2
               = removeAll (asset_id assetA) (loadingImports suspended) @ [asset_id assetC]
           \<and> asset_id assetC \<notin> set (mapKeys (importedObjects s2))"
    using C3_reentrant_sync_is_skipped
            [of suspended "propsOf emptyScene [assetB, assetA, assetC]" suspended assetA 2
               "propsOf emptyScene [assetA]" exactArith emptyBoxes None
               "[assetB, assetA, assetC]" s2 assetC 3]
          a r
    by blast
  have c: "mapKeys (importedObjects (fst (syncImportedAssets (propsOf emptyScene [assetA])
                                       (populated None Imported)))) = []"
    using C3_reentrant_sync_is_skipped [of "populated None Imported" "propsOf emptyScene [assetA]"]
          n k
    by simp
  have l: "loadingImports s2 = [''asset_c'']"
    using b by (simp add: suspended_fields assetA_def assetC_def)
  from n first_invocation a failed_resume b l c suspended_fields(3) show ?thesis
    unfolding s2_def by blast
qed

end
